theory Spec2Isabelle
  imports Main "HOL-Library.AList" "HOL-Library.Word"
begin

section \<open>Data model\<close>

text \<open>
  The plugin package \<^verbatim>\<open>pkg/plugin/plugin.go\<close> orchestrates external collaborators
  (the switch database client, the SR-IOV helper, the IPAM sub-plugin, the kernel's link and
  namespace primitives, the cache store).  Go's \<^verbatim>\<open>error\<close> values are modelled by the
  datatype below: one constructor for every error the plugin itself creates, and
  \<open>External\<close> for an error value handed back by a collaborator.  The two collaborator
  errors the plugin tells apart (\<^verbatim>\<open>ns.NSPathNotExistErr\<close>, \<^verbatim>\<open>ip.ErrLinkNotFound\<close>)
  have constructors of their own.
\<close>

datatype error =
    External string
  | NSPathNotExistErr string
  | ErrLinkNotFound
  | IncorrectTrunkMinID
  | IncorrectTrunkMaxID
  | MinIDGreaterThanMaxID
  | IncorrectTrunkID
  | TrunkMisconfigured
  | FailedResolveUplink error
  | FailedFindBridgeByUplink string error
  | FailedFindBridgeByUplinks "string list" "error list"
  | FailedGetBridgeName
  | FailedSetMAC string string error
  | FailedOpenNetns string error
  | ErrorSavingNetConf error
  | FailedSetupIPAM string error
  | IPAMMissingIPConfig
  | FailedLookupContIface string error
  | FailedLookUp string error
  | OFPortNotUp string
  | CleanPortsFailed error
  | FailedObtainOVSPort error

text \<open>\<^verbatim>\<open>types.Trunk\<close>: three optional unsigned fields (pointers in Go, \<open>None\<close> for nil).\<close>

record Trunk =
  MinID :: "nat option"
  MaxID :: "nat option"
  ID :: "nat option"

section \<open>The trunk resolver\<close>

text \<open>
  \<^verbatim>\<open>splitVlanIds\<close> accumulates IDs in a \<^verbatim>\<open>map[uint]bool\<close>, here an association list
  with unique keys.  One round of the loop over the trunk entries is \<open>splitVlanIds_item\<close>;
  every \<^verbatim>\<open>return nil, errors.New(...)\<close> is an \<open>Inl\<close>.  No arithmetic of the function can
  overflow (the range loop runs below 4097), so \<^verbatim>\<open>uint\<close> is \<open>nat\<close>.
\<close>

definition splitVlanIds_item :: "Trunk \<Rightarrow> (nat \<times> bool) list \<Rightarrow> error + (nat \<times> bool) list" where
  "splitVlanIds_item item vlans =
     (let minID = (case MinID item of None \<Rightarrow> 0 | Some m \<Rightarrow> m) in
      if MinID item \<noteq> None \<and> minID > 4096 then Inl IncorrectTrunkMinID
      else
        let maxID = (case MaxID item of None \<Rightarrow> 0 | Some m \<Rightarrow> m) in
        if MaxID item \<noteq> None \<and> maxID > 4096 then Inl IncorrectTrunkMaxID
        else if MaxID item \<noteq> None \<and> maxID < minID then Inl MinIDGreaterThanMaxID
        else
          let vlans1 = (if minID > 0 \<and> maxID > 0
                        then fold (\<lambda>v m. AList.update v True m) [minID..<Suc maxID] vlans
                        else vlans) in
          (case ID item of
             None \<Rightarrow> Inr vlans1
           | Some i \<Rightarrow>
               if minID > 4096 then Inl IncorrectTrunkID
               else Inr (AList.update i True vlans1)))"

fun splitVlanIds_loop :: "Trunk list \<Rightarrow> (nat \<times> bool) list \<Rightarrow> error + (nat \<times> bool) list" where
  "splitVlanIds_loop [] vlans = Inr vlans"
| "splitVlanIds_loop (item # trunks) vlans =
     (case splitVlanIds_item item vlans of
        Inl e \<Rightarrow> Inl e
      | Inr vlans' \<Rightarrow> splitVlanIds_loop trunks vlans')"

definition splitVlanIds :: "Trunk list \<Rightarrow> error + nat list" where
  "splitVlanIds trunks =
     (case splitVlanIds_loop trunks [] of
        Inl e \<Rightarrow> Inl e
      | Inr vlans \<Rightarrow>
          if length vlans = 0 then Inl TrunkMisconfigured
          else Inr (sort (map fst vlans)))"

section \<open>Records of the plugin and of its collaborators\<close>

type_synonym byte = "8 word"

text \<open>\<^verbatim>\<open>skel.CmdArgs\<close>, \<^verbatim>\<open>EnvArgs\<close>, \<^verbatim>\<open>types.NetConf\<close> (the fields the plugin reads;
  \<^verbatim>\<open>IPAM.Type\<close> is the field \<open>IPAM_Type\<close>), \<^verbatim>\<open>types.CachedNetConf\<close>,
  \<^verbatim>\<open>current.Interface\<close>, \<^verbatim>\<open>current.IPConfig\<close>, \<^verbatim>\<open>current.Result\<close>,
  \<^verbatim>\<open>net.Interface\<close> and the attributes of a \<^verbatim>\<open>netlink.Link\<close>.\<close>

record CmdArgs =
  ContainerID :: string
  Netns :: string
  IfName :: string
  Args :: string
  StdinData :: string

record EnvArgs =
  MAC :: string
  OvnPort :: string
  K8S_POD_UID :: string

record NetConf =
  CNIVersion :: string
  BrName :: string
  VlanTag :: "nat option"
  Trunk :: "Trunk list"
  SocketFile :: string
  DeviceID :: string
  MTU :: int
  OfportRequest :: nat
  InterfaceType :: string
  IPAM_Type :: string
  LinkStateCheckRetries :: int
  LinkStateCheckInterval :: int

record CachedNetConf =
  Netconf :: NetConf
  OrigIfName :: string
  UserspaceMode :: bool

record Interface =
  Name :: string
  Mac :: string
  Sandbox :: string

record IPConfig =
  Interface :: "int option"
  Address_IP :: "byte list"

record Result =
  Interfaces :: "Interface list"
  IPs :: "IPConfig list"

record NetInterface =
  Iface_Name :: string
  Iface_HardwareAddr :: "byte list"

record Link =
  Attrs_Name :: string
  Attrs_HardwareAddr :: "byte list"

text \<open>
  An \<^verbatim>\<open>*ovsdb.OvsBridgeDriver\<close> is identified by the bridge name and the socket file it
  was opened with.  A network namespace is identified by its path; the host namespace, in
  which the plugin process starts, is the empty path.
\<close>

type_synonym OvsBridgeDriver = "string \<times> string"

definition hostNetns :: string where
  "hostNetns = []"

text \<open>
  The calls the plugin makes on its collaborators.  A call that can change the state of a
  collaborator (the switch database, the kernel's links, the IPAM plugin, the cache
  directory, the standard output) is appended to the history when it is made, whether it
  fails or not; so are the closing of a namespace handle, the plugin's sleeps and the two
  reads the properties below speak of, the poll of a port's operational state and the
  lookup of a port by its tags.  The other reads, the opening of a connection to the
  switch database (\<open>NewOvsDriver\<close>, \<open>NewOvsBridgeDriver\<close>), the opening of a namespace
  (\<open>GetNS\<close>) and the switch of the thread into it (\<open>NetNS_Set\<close>) are not recorded; their
  constructors only name them where \<open>failure\<close> is asked whether they fail.
  Messages written with \<^verbatim>\<open>log.Printf\<close> are not part of the model.
  A call made inside \<^verbatim>\<open>contNetns.Do\<close> carries the namespace path as its first argument.
\<close>

datatype call =
    CreatePort OvsBridgeDriver string string string string nat nat "nat list" string string string
  | DeletePort OvsBridgeDriver string
  | GetOvsPortForContIface OvsBridgeDriver string string
  | GetOFPortOpState OvsBridgeDriver string
  | Sleep "64 word"
  | NewOvsDriver string
  | NewOvsBridgeDriver string string
  | GetNS string
  | NetNS_Set string
  | NetNS_Close string
  | SaveCache string CachedNetConf
  | CleanCache string
  | SetupVeth string string int string
  | SetupSriovInterface string string string string int string bool
  | LinkSetUp string string
  | LinkSetHardwareAddr string string "byte list"
  | ExecAdd string string
  | ExecDel string string
  | ConfigureIface string string Result
  | GratuitousArpOverIface string "byte list" string
  | PrintResult Result string
  | DelLinkByName string string
  | ResetVF CmdArgs string string
  | ReleaseVF CmdArgs string

type_synonym history = "call list"

text \<open>
  The collaborators are parameters of the model: \<open>failure\<close> gives the error of a call
  that returns only an error, the other fields give the result of a call that returns a
  value.  Each takes the history of the calls made so far, so a collaborator may answer
  the same question differently after the plugin has changed something.
  \<^verbatim>\<open>cnitypes.LoadArgs\<close>, \<^verbatim>\<open>config.GetCRef\<close>, \<^verbatim>\<open>sriov.IsOvsHardwareOffloadEnabled\<close>,
  \<^verbatim>\<open>current.NewResultFromResult\<close>, \<^verbatim>\<open>net.HardwareAddr.String\<close>, \<^verbatim>\<open>net.IP.String\<close>
  and \<^verbatim>\<open>sha256.Sum256\<close> are functions of their arguments alone.
\<close>

record world =
  failure :: "history \<Rightarrow> call \<Rightarrow> error option"
  LoadArgs :: "string \<Rightarrow> error + EnvArgs"
  LoadConf :: "history \<Rightarrow> string \<Rightarrow> error + NetConf"
  GetCRef :: "string \<Rightarrow> string \<Rightarrow> string"
  FindBridgeByInterface :: "history \<Rightarrow> string \<Rightarrow> string \<Rightarrow> error + string"
  GetBridgeUplinkNameByDeviceID :: "history \<Rightarrow> string \<Rightarrow> error + string list"
  IsOvsHardwareOffloadEnabled :: "string \<Rightarrow> bool"
  HasUserspaceDriver :: "history \<Rightarrow> string \<Rightarrow> error + bool"
  FindInterfacesWithError :: "history \<Rightarrow> OvsBridgeDriver \<Rightarrow> error + string list"
  GetVFLinkName :: "history \<Rightarrow> string \<Rightarrow> error + string"
  GetNetRepresentor :: "history \<Rightarrow> string \<Rightarrow> error + string"
  LinkByName :: "history \<Rightarrow> string \<Rightarrow> string \<Rightarrow> error + Link"
  InterfaceByName :: "history \<Rightarrow> string \<Rightarrow> string \<Rightarrow> error + NetInterface"
  SetupVeth_ret :: "history \<Rightarrow> call \<Rightarrow> error + (NetInterface \<times> NetInterface)"
  SetupSriovInterface_ret :: "history \<Rightarrow> call \<Rightarrow> error + (Interface \<times> Interface)"
  GetOvsPortForContIface_ret :: "history \<Rightarrow> call \<Rightarrow> string \<times> bool \<times> error option"
  GetOFPortOpState_ret :: "history \<Rightarrow> call \<Rightarrow> error + string"
  ExecAdd_ret :: "history \<Rightarrow> call \<Rightarrow> error + Result"
  NewResultFromResult :: "Result \<Rightarrow> error + Result"
  HardwareAddr_String :: "byte list \<Rightarrow> string"
  IP_String :: "byte list \<Rightarrow> string"
  Sum256 :: "string \<Rightarrow> byte list"

text \<open>The state a run of the plugin works on: the history of calls, and the records kept
  by the cache store under their keys.\<close>

record state =
  history :: history
  cache :: "string \<rightharpoonup> CachedNetConf"

definition request :: "(history \<Rightarrow> call \<Rightarrow> 'a) \<Rightarrow> call \<Rightarrow> state \<Rightarrow> 'a \<times> state" where
  "request f c s = (f (history s) c, s\<lparr>history := history s @ [c]\<rparr>)"

definition perform :: "world \<Rightarrow> call \<Rightarrow> state \<Rightarrow> error option \<times> state" where
  "perform w c s = request (failure w) c s"

text \<open>Modelled from the spec: \<^verbatim>\<open>utils.SaveCache\<close>, which is not among the sources, is the
  cache store's save(key, record) \<open>\<rightarrow>\<close> error.  A save that fails leaves the store as it
  was.\<close>

definition utils_SaveCache :: "world \<Rightarrow> string \<Rightarrow> CachedNetConf \<Rightarrow> state \<Rightarrow> error option \<times> state" where
  "utils_SaveCache w cRef conf s =
     (case perform w (SaveCache cRef conf) s of
        (Some e, s') \<Rightarrow> (Some e, s')
      | (None, s') \<Rightarrow> (None, s'\<lparr>cache := (cache s')(cRef \<mapsto> conf)\<rparr>))"

text \<open>Modelled from the spec: \<^verbatim>\<open>utils.CleanCache\<close>, which is not among the sources, is the
  cache store's delete(key) \<open>\<rightarrow>\<close> error.  A delete that fails leaves the store as it
  was.\<close>

definition utils_CleanCache :: "world \<Rightarrow> string \<Rightarrow> state \<Rightarrow> error option \<times> state" where
  "utils_CleanCache w cRef s =
     (case perform w (CleanCache cRef) s of
        (Some e, s') \<Rightarrow> (Some e, s')
      | (None, s') \<Rightarrow> (None, s'\<lparr>cache := (cache s')(cRef := None)\<rparr>))"

text \<open>Modelled from the spec: \<^verbatim>\<open>config.LoadConfFromCache\<close>, which is not among the sources,
  is the cache store's load(key) \<open>\<rightarrow>\<close> (record, error).  It fails when the store keeps no
  record under the key.\<close>

definition config_LoadConfFromCache :: "string \<Rightarrow> state \<Rightarrow> error + CachedNetConf" where
  "config_LoadConfFromCache cRef s =
     (case cache s cRef of
        None \<Rightarrow> Inl (External ''failed to read container data'')
      | Some conf \<Rightarrow> Inr conf)"

definition recorded :: "call \<Rightarrow> state \<Rightarrow> state" where
  "recorded c s = s\<lparr>history := history s @ [c]\<rparr>"

section \<open>Helpers of the plugin\<close>

definition getEnvArgs :: "world \<Rightarrow> string \<Rightarrow> error + EnvArgs option" where
  "getEnvArgs w envArgsString =
     (if envArgsString \<noteq> [] then
        (case LoadArgs w envArgsString of
           Inl err \<Rightarrow> Inl err
         | Inr e \<Rightarrow> Inr (Some e))
      else Inr None)"

text \<open>The helpers that use netlink take the namespace \<open>ns\<close> the calling thread is in.\<close>

definition getHardwareAddr :: "world \<Rightarrow> string \<Rightarrow> history \<Rightarrow> string \<Rightarrow> string" where
  "getHardwareAddr w ns h ifName =
     (case LinkByName w h ns ifName of
        Inl err \<Rightarrow> []
      | Inr ifLink \<Rightarrow> HardwareAddr_String w (Attrs_HardwareAddr ifLink))"

text \<open>\<^verbatim>\<open>net.IP.To4\<close> of Go's standard library: a 4-byte address is returned as it is, a
  16-byte address with the IPv4-in-IPv6 prefix gives its last four bytes, anything else
  nil.\<close>

definition To4 :: "byte list \<Rightarrow> byte list option" where
  "To4 ip =
     (if length ip = 4 then Some ip
      else if length ip = 16 \<and> list_all (\<lambda>b. b = 0) (take 10 ip) \<and> ip ! 10 = 0xff \<and> ip ! 11 = 0xff
      then Some (drop 12 ip)
      else None)"

definition IPAddrToHWAddr :: "world \<Rightarrow> byte list \<Rightarrow> byte list" where
  "IPAddrToHWAddr w ip =
     (case To4 ip of
        Some ip4 \<Rightarrow> [0x0A, 0x58, ip4 ! 0, ip4 ! 1, ip4 ! 2, ip4 ! 3]
      | None \<Rightarrow>
          let hash = Sum256 w (IP_String w ip)
          in [0x0A, 0x58, hash ! 0, hash ! 1, hash ! 2, hash ! 3])"

definition setInterfaceUp :: "world \<Rightarrow> string \<Rightarrow> string \<Rightarrow> state \<Rightarrow> error option \<times> state" where
  "setInterfaceUp w ns name s =
     (case LinkByName w (history s) ns name of
        Inl err \<Rightarrow> (Some err, s)
      | Inr link \<Rightarrow> perform w (LinkSetUp ns (Attrs_Name link)) s)"

definition assignMacToLink :: "world \<Rightarrow> string \<Rightarrow> Link \<Rightarrow> byte list \<Rightarrow> string \<Rightarrow> state \<Rightarrow> error option \<times> state" where
  "assignMacToLink w ns link mac name s =
     (case perform w (LinkSetHardwareAddr ns (Attrs_Name link) mac) s of
        (Some err, s') \<Rightarrow> (Some (FailedSetMAC name (HardwareAddr_String w mac) err), s')
      | (None, s') \<Rightarrow> (None, s'))"

definition refetchIface :: "world \<Rightarrow> string \<Rightarrow> Interface \<Rightarrow> state \<Rightarrow> error option \<times> Interface" where
  "refetchIface w ns iface s =
     (None, iface\<lparr>Mac := getHardwareAddr w ns (history s) (Name iface)\<rparr>)"

text \<open>\<^verbatim>\<open>contNetns.Do(toRun)\<close>: the thread is switched to the namespace, which can fail
  before \<open>toRun\<close> is called; otherwise the result is that of \<open>toRun\<close>.  \<open>unchanged\<close> is what
  the variables \<open>toRun\<close> would assign hold when it does not run.\<close>

definition NetNS_Do :: "world \<Rightarrow> string \<Rightarrow> (state \<Rightarrow> (error option \<times> 'a) \<times> state) \<Rightarrow> 'a \<Rightarrow> state \<Rightarrow> (error option \<times> 'a) \<times> state" where
  "NetNS_Do w path toRun unchanged s =
     (case failure w (history s) (NetNS_Set path) of
        Some err \<Rightarrow> ((Some err, unchanged), s)
      | None \<Rightarrow> toRun s)"

definition setupVeth_toRun :: "world \<Rightarrow> string \<Rightarrow> string \<Rightarrow> string \<Rightarrow> int \<Rightarrow> Interface \<times> Interface \<Rightarrow> state \<Rightarrow> (error option \<times> Interface \<times> Interface) \<times> state" where
  "setupVeth_toRun w contNetns contIfaceName requestedMac mtu ifaces s =
     (case request (SetupVeth_ret w) (SetupVeth contNetns contIfaceName mtu requestedMac) s of
        (Inl err, s1) \<Rightarrow> ((Some err, ifaces), s1)
      | (Inr (hostVeth, containerVeth), s1) \<Rightarrow>
          (case setInterfaceUp w contNetns contIfaceName s1 of
             (Some err, s2) \<Rightarrow> ((Some err, ifaces), s2)
           | (None, s2) \<Rightarrow>
               ((None,
                 (fst ifaces)\<lparr>Name := Iface_Name hostVeth\<rparr>,
                 (snd ifaces)\<lparr>Name := Iface_Name containerVeth,
                               Mac := HardwareAddr_String w (Iface_HardwareAddr containerVeth),
                               Sandbox := contNetns\<rparr>), s2)))"

definition setupVeth :: "world \<Rightarrow> string \<Rightarrow> string \<Rightarrow> string \<Rightarrow> int \<Rightarrow> state \<Rightarrow> (error + Interface \<times> Interface) \<times> state" where
  "setupVeth w contNetns contIfaceName requestedMac mtu s =
     (let hostIface = \<lparr>Name = [], Mac = [], Sandbox = []\<rparr>;
          contIface = \<lparr>Name = [], Mac = [], Sandbox = []\<rparr>
      in case NetNS_Do w contNetns (setupVeth_toRun w contNetns contIfaceName requestedMac mtu (hostIface, contIface))
                (hostIface, contIface) s of
           ((Some err, ifaces), s1) \<Rightarrow> (Inl err, s1)
         | ((None, hostIface1, contIface1), s1) \<Rightarrow>
             (case refetchIface w hostNetns hostIface1 s1 of
                (Some err, hostIface2) \<Rightarrow> (Inl err, s1)
              | (None, hostIface2) \<Rightarrow> (Inr (hostIface2, contIface1), s1)))"

section \<open>The bridge resolver\<close>

text \<open>The loop of \<^verbatim>\<open>getBridgeName\<close> over the candidate uplinks: \<open>Inr\<close> the first bridge
  found, \<open>Inl\<close> the error list when the loop runs to its end.\<close>

fun getBridgeName_uplinks :: "(string \<Rightarrow> error + string) \<Rightarrow> string list \<Rightarrow> error list \<Rightarrow> error list + string" where
  "getBridgeName_uplinks findBridge [] errList = Inl errList"
| "getBridgeName_uplinks findBridge (uplinkName # rest) errList =
     (case findBridge uplinkName of
        Inl err \<Rightarrow> getBridgeName_uplinks findBridge rest (errList @ [FailedFindBridgeByUplink uplinkName err])
      | Inr bridgeName \<Rightarrow> Inr bridgeName)"

text \<open>\<open>findBridge\<close> is \<^verbatim>\<open>driver.FindBridgeByInterface\<close> and \<open>uplinks\<close> is
  \<^verbatim>\<open>sriov.GetBridgeUplinkNameByDeviceID\<close>.\<close>

definition getBridgeName :: "(string \<Rightarrow> error + string) \<Rightarrow> (string \<Rightarrow> error + string list) \<Rightarrow> string \<Rightarrow> string \<Rightarrow> string \<Rightarrow> error + string" where
  "getBridgeName findBridge uplinks bridgeName ovnPort deviceID =
     (if bridgeName \<noteq> [] then Inr bridgeName
      else if bridgeName = [] \<and> ovnPort \<noteq> [] then Inr ''br-int''
      else if deviceID \<noteq> [] then
        (case uplinks deviceID of
           Inl err \<Rightarrow> Inl (FailedResolveUplink err)
         | Inr possibleUplinkNames \<Rightarrow>
             (case getBridgeName_uplinks findBridge possibleUplinkNames [] of
                Inr found \<Rightarrow> Inr found
              | Inl errList \<Rightarrow> Inl (FailedFindBridgeByUplinks possibleUplinkNames errList)))
      else Inl FailedGetBridgeName)"

definition attachIfaceToBridge :: "world \<Rightarrow> string \<Rightarrow> OvsBridgeDriver \<Rightarrow> string \<Rightarrow> string \<Rightarrow> nat \<Rightarrow> nat \<Rightarrow> nat list \<Rightarrow> string \<Rightarrow> string \<Rightarrow> string \<Rightarrow> string \<Rightarrow> string \<Rightarrow> state \<Rightarrow> error option \<times> state" where
  "attachIfaceToBridge w ns ovsDriver hostIfaceName contIfaceName ofportRequest vlanTag trunks portType intfType contNetnsPath ovnPortName contPodUid s =
     (case perform w (CreatePort ovsDriver hostIfaceName contNetnsPath contIfaceName ovnPortName
                        ofportRequest vlanTag trunks portType intfType contPodUid) s of
        (Some err, s1) \<Rightarrow> (Some err, s1)
      | (None, s1) \<Rightarrow>
          (case LinkByName w (history s1) ns hostIfaceName of
             Inl err \<Rightarrow> (Some err, s1)
           | Inr hostLink \<Rightarrow> perform w (LinkSetUp ns (Attrs_Name hostLink)) s1))"

section \<open>Link-state polling\<close>

text \<open>
  The loop of \<^verbatim>\<open>waitLinkUp\<close>, from the round \<open>i\<close> on.  \<open>retryCount\<close> and \<open>i\<close> are Go
  \<^verbatim>\<open>int\<close>s; \<open>i\<close> never passes \<open>retryCount\<close>, so the increment cannot overflow.
  \<open>checkInterval\<close> is a \<^verbatim>\<open>time.Duration\<close>, a 64-bit count of nanoseconds.
\<close>

function waitLinkUp_loop :: "world \<Rightarrow> OvsBridgeDriver \<Rightarrow> string \<Rightarrow> int \<Rightarrow> 64 word \<Rightarrow> int \<Rightarrow> state \<Rightarrow> error option \<times> state" where
  "waitLinkUp_loop w ovsDriver ofPortName retryCount checkInterval i s =
     (if i \<le> retryCount then
        (let r = request (GetOFPortOpState_ret w) (GetOFPortOpState ovsDriver ofPortName) s in
         if fst r = Inr ''up'' then (None, snd r)
         else if i = retryCount then (Some (OFPortNotUp ofPortName), snd r)
         else waitLinkUp_loop w ovsDriver ofPortName retryCount checkInterval (i + 1)
                (recorded (Sleep checkInterval) (snd r)))
      else (None, s))"
  by pat_completeness auto
termination
  by (relation "measure (\<lambda>(w, ovsDriver, ofPortName, retryCount, checkInterval, i, s). nat (retryCount + 1 - i))") auto

declare waitLinkUp_loop.simps [simp del]

definition waitLinkUp :: "world \<Rightarrow> OvsBridgeDriver \<Rightarrow> string \<Rightarrow> int \<Rightarrow> int \<Rightarrow> state \<Rightarrow> error option \<times> state" where
  "waitLinkUp w ovsDriver ofPortName retryCount interval s =
     (let checkInterval = (word_of_int interval :: 64 word) * 1000000
      in waitLinkUp_loop w ovsDriver ofPortName retryCount checkInterval 1 s)"

section \<open>Ports of the switch\<close>

definition getOvsPortForContIface :: "world \<Rightarrow> OvsBridgeDriver \<Rightarrow> string \<Rightarrow> string \<Rightarrow> state \<Rightarrow> (string \<times> bool \<times> error option) \<times> state" where
  "getOvsPortForContIface w ovsDriver contIface contNetnsPath s =
     request (GetOvsPortForContIface_ret w) (GetOvsPortForContIface ovsDriver contIface contNetnsPath) s"

definition removeOvsPort :: "world \<Rightarrow> OvsBridgeDriver \<Rightarrow> string \<Rightarrow> state \<Rightarrow> error option \<times> state" where
  "removeOvsPort w ovsDriver portName s = perform w (DeletePort ovsDriver portName) s"

fun cleanPorts_loop :: "world \<Rightarrow> OvsBridgeDriver \<Rightarrow> string list \<Rightarrow> state \<Rightarrow> state" where
  "cleanPorts_loop w ovsDriver [] s = s"
| "cleanPorts_loop w ovsDriver (iface # ifaces) s =
     cleanPorts_loop w ovsDriver ifaces (snd (perform w (DeletePort ovsDriver iface) s))"

definition cleanPorts :: "world \<Rightarrow> OvsBridgeDriver \<Rightarrow> state \<Rightarrow> error option \<times> state" where
  "cleanPorts w ovsDriver s =
     (case FindInterfacesWithError w (history s) ovsDriver of
        Inl err \<Rightarrow> (Some (CleanPortsFailed err), s)
      | Inr ifaces \<Rightarrow> (None, cleanPorts_loop w ovsDriver ifaces s))"

section \<open>Attach\<close>

text \<open>
  \<^verbatim>\<open>CmdAdd\<close> is one Go function; the model follows it block by block.  Its result has no
  name, so a deferred function cannot change what \<^verbatim>\<open>CmdAdd\<close> returns, but it reads the
  variable \<^verbatim>\<open>err\<close> of \<^verbatim>\<open>CmdAdd\<close> as it stands when the function returns.  Where that
  matters, an exit of a block is a pair: the value returned, and the value \<^verbatim>\<open>err\<close> holds.
\<close>

text \<open>Lines 280 to 294, the VLAN policy: tag, trunk IDs and port type.\<close>

definition CmdAdd_vlan :: "NetConf \<Rightarrow> error + (nat \<times> nat list \<times> string)" where
  "CmdAdd_vlan netconf =
     (if VlanTag netconf = None \<or> length (Trunk netconf) > 0 then
        (if length (Trunk netconf) > 0 then
           (case splitVlanIds (Trunk netconf) of
              Inl err \<Rightarrow> Inl err
            | Inr trunkVlanIds \<Rightarrow> Inr (0, [] @ trunkVlanIds, ''trunk''))
         else Inr (0, [], ''trunk''))
      else (case VlanTag netconf of
              Some tag \<Rightarrow> Inr (tag, [], ''access'')
            | None \<Rightarrow> Inr (0, [], ''access'')))"

text \<open>Lines 449 to 459: a gratuitous ARP is sent for every IPv4 address; a failure is only
  logged.\<close>

fun CmdAdd_garp :: "world \<Rightarrow> string \<Rightarrow> NetInterface \<Rightarrow> IPConfig list \<Rightarrow> state \<Rightarrow> state" where
  "CmdAdd_garp w ns contVeth [] s = s"
| "CmdAdd_garp w ns contVeth (ipc # ipcs) s =
     CmdAdd_garp w ns contVeth ipcs
       (if To4 (Address_IP ipc) \<noteq> None
        then snd (perform w (GratuitousArpOverIface ns (Address_IP ipc) (Iface_Name contVeth)) s)
        else s)"

text \<open>Lines 429 to 440, the MAC assignment: without a requested MAC and without hardware
  offload, the MAC derived from the first address is set on the container's link and
  written to the result.\<close>

definition CmdAdd_assign_mac :: "world \<Rightarrow> CmdArgs \<Rightarrow> NetConf \<Rightarrow> string \<Rightarrow> Result \<Rightarrow> state \<Rightarrow> (error option \<times> Result) \<times> state" where
  "CmdAdd_assign_mac w args netconf mac newResult s =
     (if mac = [] \<and> \<not> IsOvsHardwareOffloadEnabled w (DeviceID netconf) \<and> length (IPs newResult) \<ge> 1 then
        (let containerMac = IPAddrToHWAddr w (Address_IP (IPs newResult ! 0)) in
         case LinkByName w (history s) (Netns args) (IfName args) of
           Inl err \<Rightarrow> ((Some (FailedLookupContIface (IfName args) err), newResult), s)
         | Inr containerLink \<Rightarrow>
             (case assignMacToLink w (Netns args) containerLink containerMac (IfName args) s of
                (Some err, s1) \<Rightarrow> ((Some err, newResult), s1)
              | (None, s1) \<Rightarrow>
                  ((None, newResult\<lparr>Interfaces := (Interfaces newResult)
                             [0 := (Interfaces newResult ! 0)\<lparr>Mac := HardwareAddr_String w containerMac\<rparr>]\<rparr>), s1)))
      else ((None, newResult), s))"

text \<open>Lines 428 to 461, the function run inside the container's namespace: the MAC
  assignment, the configuration of the container interface with the addresses and routes
  (\<^verbatim>\<open>ipam.ConfigureIface\<close>), the gratuitous ARPs.\<close>

definition CmdAdd_toRun :: "world \<Rightarrow> CmdArgs \<Rightarrow> NetConf \<Rightarrow> string \<Rightarrow> Result \<Rightarrow> state \<Rightarrow> (error option \<times> Result) \<times> state" where
  "CmdAdd_toRun w args netconf mac newResult s =
     (case CmdAdd_assign_mac w args netconf mac newResult s of
        ((Some err, newResult1), s1) \<Rightarrow> ((Some err, newResult1), s1)
      | ((None, newResult1), s1) \<Rightarrow>
          (case perform w (ConfigureIface (Netns args) (IfName args) newResult1) s1 of
             (Some err, s2) \<Rightarrow> ((Some err, newResult1), s2)
           | (None, s2) \<Rightarrow>
               (case InterfaceByName w (history s2) (Netns args) (IfName args) of
                  Inl err \<Rightarrow> ((Some (FailedLookUp (IfName args) err), newResult1), s2)
                | Inr contVeth \<Rightarrow>
                    ((None, newResult1), CmdAdd_garp w (Netns args) contVeth (IPs newResult1) s2))))"

text \<open>Lines 468 to 475: the interface index of every address is set to the position of
  the container interface in the result.\<close>

definition CmdAdd_fix_index :: "string \<Rightarrow> Result \<Rightarrow> Result" where
  "CmdAdd_fix_index ifName result =
     result\<lparr>IPs :=
       fold (\<lambda>(ifIndex, ifCfg) ips.
               if Name ifCfg = ifName then map (\<lambda>ipc. ipc\<lparr>Interface := Some (int ifIndex)\<rparr>) ips else ips)
            (zip [0..<length (Interfaces result)] (Interfaces result)) (IPs result)\<rparr>"

text \<open>Lines 389 to 475, the body of \<^verbatim>\<open>if netconf.IPAM.Type != "" && !userspaceMode\<close>.
  \<open>Inl (ret, err)\<close>: \<^verbatim>\<open>CmdAdd\<close> returns \<open>ret\<close> from inside the block while its variable
  \<^verbatim>\<open>err\<close> holds \<open>err\<close>; \<open>Inr result\<close>: the block ends, with \<^verbatim>\<open>err\<close> nil.\<close>

definition CmdAdd_ipam :: "world \<Rightarrow> CmdArgs \<Rightarrow> NetConf \<Rightarrow> string \<Rightarrow> OvsBridgeDriver \<Rightarrow> Interface \<Rightarrow> Interface \<Rightarrow> state \<Rightarrow> ((error option \<times> error option) + Result) \<times> state" where
  "CmdAdd_ipam w args netconf mac ovsBridgeDriver hostIface contIface s =
     (case request (ExecAdd_ret w) (ExecAdd (IPAM_Type netconf) (StdinData args)) s of
        (Inl err, s1) \<Rightarrow> (Inl (Some (FailedSetupIPAM (IPAM_Type netconf) err), Some err), s1)
      | (Inr r, s1) \<Rightarrow>
          (case NewResultFromResult w r of
             Inl err \<Rightarrow> (Inl (Some err, Some err), s1)
           | Inr newResult \<Rightarrow>
               if length (IPs newResult) = 0 then (Inl (Some IPAMMissingIPConfig, None), s1)
               else
                 let newResult1 = newResult\<lparr>Interfaces := [contIface],
                                            IPs := map (\<lambda>ipc. ipc\<lparr>Interface := Some 0\<rparr>) (IPs newResult)\<rparr>
                 in
                 (case waitLinkUp w ovsBridgeDriver (Name hostIface)
                         (LinkStateCheckRetries netconf) (LinkStateCheckInterval netconf) s1 of
                    (Some err, s2) \<Rightarrow> (Inl (Some err, Some err), s2)
                  | (None, s2) \<Rightarrow>
                      (case NetNS_Do w (Netns args) (CmdAdd_toRun w args netconf mac newResult1) newResult1 s2 of
                         ((Some err, newResult2), s3) \<Rightarrow> (Inl (Some err, Some err), s3)
                       | ((None, newResult2), s3) \<Rightarrow>
                           (Inr (CmdAdd_fix_index (IfName args)
                                   (newResult2\<lparr>Interfaces := [hostIface, Interfaces newResult2 ! 0]\<rparr>)), s3)))))"

text \<open>Lines 365 to 379, the deferred rollback, when \<^verbatim>\<open>err\<close> is not nil: the port is looked
  up by the container interface name and the namespace path and removed when found; a
  failure of either call is only logged.\<close>

definition CmdAdd_rollback :: "world \<Rightarrow> CmdArgs \<Rightarrow> OvsBridgeDriver \<Rightarrow> state \<Rightarrow> state" where
  "CmdAdd_rollback w args ovsBridgeDriver s =
     (case getOvsPortForContIface w ovsBridgeDriver (IfName args) (Netns args) s of
        ((portName, portFound, err), s1) \<Rightarrow>
          if portFound then snd (removeOvsPort w ovsBridgeDriver portName s1) else s1)"

text \<open>Lines 365 to 478: what follows a successful \<^verbatim>\<open>attachIfaceToBridge\<close>.  The deferred
  functions run last in, first out: the IPAM cleanup registered at line 391, then the
  rollback registered at line 365.\<close>

definition CmdAdd_armed :: "world \<Rightarrow> CmdArgs \<Rightarrow> NetConf \<Rightarrow> string \<Rightarrow> bool \<Rightarrow> OvsBridgeDriver \<Rightarrow> Interface \<Rightarrow> Interface \<Rightarrow> state \<Rightarrow> error option \<times> state" where
  "CmdAdd_armed w args netconf mac userspaceMode ovsBridgeDriver hostIface contIface s =
     (let result = \<lparr>Interfaces = [hostIface, contIface], IPs = []\<rparr> in
      if IPAM_Type netconf \<noteq> [] \<and> \<not> userspaceMode then
        (case CmdAdd_ipam w args netconf mac ovsBridgeDriver hostIface contIface s of
           (Inl (ret, err), s1) \<Rightarrow>
             (let s2 = (if err \<noteq> None
                        then snd (perform w (ExecDel (IPAM_Type netconf) (StdinData args)) s1)
                        else s1);
                  s3 = (if err \<noteq> None then CmdAdd_rollback w args ovsBridgeDriver s2 else s2)
              in (ret, s3))
         | (Inr result1, s1) \<Rightarrow> perform w (PrintResult result1 (CNIVersion netconf)) s1)
      else perform w (PrintResult result (CNIVersion netconf)) s)"

text \<open>The local variables of \<^verbatim>\<open>CmdAdd\<close> that are set by line 332 and read later.\<close>

record CmdAdd_locals =
  l_netconf :: NetConf
  l_mac :: string
  l_ovnPort :: string
  l_contPodUid :: string
  l_vlanTagNum :: nat
  l_trunks :: "nat list"
  l_portType :: string
  l_ovsBridgeDriver :: OvsBridgeDriver
  l_userspaceMode :: bool

text \<open>Lines 261 to 332: the arguments and the configuration are read, the bridge is
  resolved, stale ports are swept and the container's namespace is opened.\<close>

definition CmdAdd_open :: "world \<Rightarrow> CmdArgs \<Rightarrow> state \<Rightarrow> (error + CmdAdd_locals) \<times> state" where
  "CmdAdd_open w args s =
     (case getEnvArgs w (Args args) of
        Inl err \<Rightarrow> (Inl err, s)
      | Inr envArgs \<Rightarrow>
          let mac = (case envArgs of None \<Rightarrow> [] | Some e \<Rightarrow> MAC e);
              ovnPort = (case envArgs of None \<Rightarrow> [] | Some e \<Rightarrow> OvnPort e);
              contPodUid = (case envArgs of None \<Rightarrow> [] | Some e \<Rightarrow> K8S_POD_UID e)
          in
          (case LoadConf w (history s) (StdinData args) of
             Inl err \<Rightarrow> (Inl err, s)
           | Inr netconf0 \<Rightarrow>
          (case CmdAdd_vlan netconf0 of
             Inl err \<Rightarrow> (Inl err, s)
           | Inr (vlanTagNum, trunks, portType) \<Rightarrow>
          (case failure w (history s) (NewOvsDriver (SocketFile netconf0)) of
             Some err \<Rightarrow> (Inl err, s)
           | None \<Rightarrow>
          (case getBridgeName (FindBridgeByInterface w (history s) (SocketFile netconf0))
                  (GetBridgeUplinkNameByDeviceID w (history s)) (BrName netconf0) ovnPort (DeviceID netconf0) of
             Inl err \<Rightarrow> (Inl err, s)
           | Inr bridgeName \<Rightarrow>
          let netconf = netconf0\<lparr>BrName := bridgeName\<rparr> in
          (case failure w (history s) (NewOvsBridgeDriver bridgeName (SocketFile netconf)) of
             Some err \<Rightarrow> (Inl err, s)
           | None \<Rightarrow>
          let ovsBridgeDriver = (bridgeName, SocketFile netconf) in
          (case (if IsOvsHardwareOffloadEnabled w (DeviceID netconf)
                 then HasUserspaceDriver w (history s) (DeviceID netconf) else Inr False) of
             Inl err \<Rightarrow> (Inl err, s)
           | Inr userspaceMode \<Rightarrow>
          (case cleanPorts w ovsBridgeDriver s of
             (Some err, s1) \<Rightarrow> (Inl err, s1)
           | (None, s1) \<Rightarrow>
          (case failure w (history s1) (GetNS (Netns args)) of
             Some err \<Rightarrow> (Inl (FailedOpenNetns (Netns args) err), s1)
           | None \<Rightarrow>
               (Inr \<lparr>l_netconf = netconf, l_mac = mac, l_ovnPort = ovnPort, l_contPodUid = contPodUid,
                     l_vlanTagNum = vlanTagNum, l_trunks = trunks, l_portType = portType,
                     l_ovsBridgeDriver = ovsBridgeDriver, l_userspaceMode = userspaceMode\<rparr>, s1))))))))))"

text \<open>Lines 335 to 364: the cache record is saved, the interface pair is provisioned,
  the switch port is created and the host-side link is brought up.\<close>

definition CmdAdd_provision :: "world \<Rightarrow> CmdArgs \<Rightarrow> CmdAdd_locals \<Rightarrow> state \<Rightarrow> (error + Interface \<times> Interface) \<times> state" where
  "CmdAdd_provision w args L s =
     (case (if IsOvsHardwareOffloadEnabled w (DeviceID (l_netconf L)) \<and> \<not> l_userspaceMode L
            then GetVFLinkName w (history s) (DeviceID (l_netconf L)) else Inr []) of
        Inl err \<Rightarrow> (Inl err, s)
      | Inr origIfName \<Rightarrow>
          (case utils_SaveCache w (GetCRef w (ContainerID args) (IfName args))
                  \<lparr>Netconf = l_netconf L, OrigIfName = origIfName, UserspaceMode = l_userspaceMode L\<rparr> s of
             (Some err, s1) \<Rightarrow> (Inl (ErrorSavingNetConf err), s1)
           | (None, s1) \<Rightarrow>
               (case (if IsOvsHardwareOffloadEnabled w (DeviceID (l_netconf L))
                      then request (SetupSriovInterface_ret w)
                             (SetupSriovInterface (Netns args) (ContainerID args) (IfName args) (l_mac L)
                                (MTU (l_netconf L)) (DeviceID (l_netconf L)) (l_userspaceMode L)) s1
                      else setupVeth w (Netns args) (IfName args) (l_mac L) (MTU (l_netconf L)) s1) of
                  (Inl err, s2) \<Rightarrow> (Inl err, s2)
                | (Inr (hostIface, contIface), s2) \<Rightarrow>
                    (case attachIfaceToBridge w hostNetns (l_ovsBridgeDriver L) (Name hostIface) (Name contIface)
                            (OfportRequest (l_netconf L)) (l_vlanTagNum L) (l_trunks L) (l_portType L)
                            (InterfaceType (l_netconf L)) (Netns args) (l_ovnPort L) (l_contPodUid L) s2 of
                       (Some err, s3) \<Rightarrow> (Inl err, s3)
                     | (None, s3) \<Rightarrow> (Inr (hostIface, contIface), s3)))))"

text \<open>\<^verbatim>\<open>CmdAdd\<close>: \<^verbatim>\<open>contNetns.Close()\<close>, deferred at line 332, runs last on every
  return after the namespace was opened.\<close>

definition CmdAdd :: "world \<Rightarrow> CmdArgs \<Rightarrow> state \<Rightarrow> error option \<times> state" where
  "CmdAdd w args s =
     (case CmdAdd_open w args s of
        (Inl err, s1) \<Rightarrow>
          (Some err, s1)
      | (Inr L, s1) \<Rightarrow>
          (case (case CmdAdd_provision w args L s1 of
                   (Inl err, s2) \<Rightarrow> (Some err, s2)
                 | (Inr (hostIface, contIface), s2) \<Rightarrow>
                     CmdAdd_armed w args (l_netconf L) (l_mac L) (l_userspaceMode L)
                       (l_ovsBridgeDriver L) hostIface contIface s2) of
             (ret, s3) \<Rightarrow> (ret, recorded (NetNS_Close (Netns args)) s3)))"

section \<open>Detach\<close>

text \<open>\<^verbatim>\<open>ns.WithNetNSPath\<close>: the namespace is opened by its path and entered, either of
  which can fail before \<open>toRun\<close> is called, and closed afterwards.\<close>

definition WithNetNSPath :: "world \<Rightarrow> string \<Rightarrow> (state \<Rightarrow> error option \<times> state) \<Rightarrow> state \<Rightarrow> error option \<times> state" where
  "WithNetNSPath w nspath toRun s =
     (case failure w (history s) (GetNS nspath) of
        Some err \<Rightarrow> (Some err, s)
      | None \<Rightarrow>
          (case failure w (history s) (NetNS_Set nspath) of
             Some err \<Rightarrow> (Some err, recorded (NetNS_Close nspath) s)
           | None \<Rightarrow> (case toRun s of (r, s1) \<Rightarrow> (r, recorded (NetNS_Close nspath) s1))))"

text \<open>Lines 656 to 661, the end of \<^verbatim>\<open>CmdDel\<close>; \<open>err\<close> is the variable \<^verbatim>\<open>err\<close> of
  \<^verbatim>\<open>CmdDel\<close>, which the \<^verbatim>\<open>err\<close> declared by the \<^verbatim>\<open>if\<close> statement shadows.\<close>

definition CmdDel_finish :: "world \<Rightarrow> OvsBridgeDriver \<Rightarrow> error option \<Rightarrow> state \<Rightarrow> (error option \<times> error option) \<times> state" where
  "CmdDel_finish w ovsBridgeDriver err s =
     (case cleanPorts w ovsBridgeDriver s of
        (Some err', s1) \<Rightarrow> ((Some err', err), s1)
      | (None, s1) \<Rightarrow> ((err, err), s1))"

text \<open>Lines 582 to 610, the branch \<^verbatim>\<open>args.Netns == ""\<close>.\<close>

definition CmdDel_no_netns :: "world \<Rightarrow> CmdArgs \<Rightarrow> CachedNetConf \<Rightarrow> OvsBridgeDriver \<Rightarrow> state \<Rightarrow> (error option \<times> error option) \<times> state" where
  "CmdDel_no_netns w args cached ovsBridgeDriver s =
     (if IsOvsHardwareOffloadEnabled w (DeviceID (Netconf cached)) then
        (case GetNetRepresentor w (history s) (DeviceID (Netconf cached)) of
           Inl err \<Rightarrow> ((Some err, Some err), s)
         | Inr rep \<Rightarrow>
             (case removeOvsPort w ovsBridgeDriver rep s of
                (err, s1) \<Rightarrow>
                  if \<not> UserspaceMode cached then
                    (case perform w (ResetVF args (DeviceID (Netconf cached)) (OrigIfName cached)) s1 of
                       (Some err', s2) \<Rightarrow> ((Some err', Some err'), s2)
                     | (None, s2) \<Rightarrow> ((None, None), s2))
                  else ((None, err), s1)))
      else
        (case cleanPorts w ovsBridgeDriver s of
           (Some err', s1) \<Rightarrow> ((Some err', None), s1)
         | (None, s1) \<Rightarrow> ((None, None), s1)))"

text \<open>Lines 612 to 661, the branch with a namespace path.\<close>

definition CmdDel_with_netns :: "world \<Rightarrow> CmdArgs \<Rightarrow> CachedNetConf \<Rightarrow> OvsBridgeDriver \<Rightarrow> state \<Rightarrow> (error option \<times> error option) \<times> state" where
  "CmdDel_with_netns w args cached ovsBridgeDriver s =
     (case getOvsPortForContIface w ovsBridgeDriver (IfName args) (Netns args) s of
        ((portName, portFound, Some err), s1) \<Rightarrow> ((Some (FailedObtainOVSPort err), Some err), s1)
      | ((portName, portFound, None), s1) \<Rightarrow>
          (case (if portFound then removeOvsPort w ovsBridgeDriver portName s1 else (None, s1)) of
             (Some err', s2) \<Rightarrow> ((Some err', None), s2)
           | (None, s2) \<Rightarrow>
               if IsOvsHardwareOffloadEnabled w (DeviceID (Netconf cached)) then
                 (if \<not> UserspaceMode cached then
                    (case perform w (ReleaseVF args (OrigIfName cached)) s2 of
                       (Some err, s3) \<Rightarrow>
                         CmdDel_finish w ovsBridgeDriver (Some err)
                           (snd (perform w (ResetVF args (DeviceID (Netconf cached)) (OrigIfName cached)) s3))
                     | (None, s3) \<Rightarrow> CmdDel_finish w ovsBridgeDriver None s3)
                  else CmdDel_finish w ovsBridgeDriver None s2)
               else
                 (case WithNetNSPath w (Netns args) (perform w (DelLinkByName (Netns args) (IfName args))) s2 of
                    (err, s3) \<Rightarrow>
                      if (case err of Some (NSPathNotExistErr p) \<Rightarrow> True | _ \<Rightarrow> False) \<or> err = Some ErrLinkNotFound
                      then ((None, err),
                            if portFound then snd (perform w (DelLinkByName hostNetns portName) s3) else s3)
                      else CmdDel_finish w ovsBridgeDriver err s3)))"

text \<open>Lines 552 to 661, what follows the \<^verbatim>\<open>defer\<close> of line 544: the value returned and
  the value the variable \<^verbatim>\<open>err\<close> holds then.\<close>

definition CmdDel_body :: "world \<Rightarrow> CmdArgs \<Rightarrow> CachedNetConf \<Rightarrow> state \<Rightarrow> (error option \<times> error option) \<times> state" where
  "CmdDel_body w args cached s =
     (case getEnvArgs w (Args args) of
        Inl err \<Rightarrow> ((Some err, Some err), s)
      | Inr envArgs \<Rightarrow>
          let ovnPort = (case envArgs of None \<Rightarrow> [] | Some e \<Rightarrow> OvnPort e) in
          (case failure w (history s) (NewOvsDriver (SocketFile (Netconf cached))) of
             Some err \<Rightarrow> ((Some err, Some err), s)
           | None \<Rightarrow>
          (case getBridgeName (FindBridgeByInterface w (history s) (SocketFile (Netconf cached)))
                  (GetBridgeUplinkNameByDeviceID w (history s)) (BrName (Netconf cached)) ovnPort
                  (DeviceID (Netconf cached)) of
             Inl err \<Rightarrow> ((Some err, Some err), s)
           | Inr bridgeName \<Rightarrow>
          (case failure w (history s) (NewOvsBridgeDriver bridgeName (SocketFile (Netconf cached))) of
             Some err \<Rightarrow> ((Some err, Some err), s)
           | None \<Rightarrow>
          let ovsBridgeDriver = (bridgeName, SocketFile (Netconf cached)) in
          (case (if IPAM_Type (Netconf cached) \<noteq> []
                 then perform w (ExecDel (IPAM_Type (Netconf cached)) (StdinData args)) s
                 else (None, s)) of
             (Some err, s1) \<Rightarrow> ((Some err, Some err), s1)
           | (None, s1) \<Rightarrow>
               if Netns args = [] then CmdDel_no_netns w args cached ovsBridgeDriver s1
               else CmdDel_with_netns w args cached ovsBridgeDriver s1)))))"

text \<open>\<^verbatim>\<open>CmdDel\<close>: without a cache record it returns nil at once; otherwise the deferred
  function of line 544 cleans the cache when the variable \<^verbatim>\<open>err\<close> is nil at the return.\<close>

definition CmdDel :: "world \<Rightarrow> CmdArgs \<Rightarrow> state \<Rightarrow> error option \<times> state" where
  "CmdDel w args s =
     (let cRef = GetCRef w (ContainerID args) (IfName args) in
      case config_LoadConfFromCache cRef s of
        Inl err \<Rightarrow> (None, s)
      | Inr cached \<Rightarrow>
          (case CmdDel_body w args cached s of
             ((ret, err), s1) \<Rightarrow>
               (ret, if err = None then snd (utils_CleanCache w cRef s1) else s1)))"

section \<open>Definitions used to state the properties\<close>

subsection \<open>Trunk entries\<close>

text \<open>The IDs one trunk entry contributes in the code: its single ID, and the range from
  its min to its max when both are given and the min is at least 1.\<close>

definition entry_ids :: "Trunk \<Rightarrow> nat set" where
  "entry_ids item =
     (case ID item of None \<Rightarrow> {} | Some i \<Rightarrow> {i}) \<union>
     (case (MinID item, MaxID item) of
        (Some lo, Some hi) \<Rightarrow> if 1 \<le> lo then {lo..hi} else {}
      | _ \<Rightarrow> {})"

text \<open>The IDs one trunk entry specifies in the words of the specification: its single
  ID and every member of its range.\<close>

definition spec_entry_ids :: "Trunk \<Rightarrow> nat set" where
  "spec_entry_ids item =
     (case ID item of None \<Rightarrow> {} | Some i \<Rightarrow> {i}) \<union>
     (case (MinID item, MaxID item) of
        (Some lo, Some hi) \<Rightarrow> {lo..hi}
      | _ \<Rightarrow> {})"

text \<open>The entries the loop of \<^verbatim>\<open>splitVlanIds\<close> returns an error for: a min or a max above
  4096, or a max below the min (0 when no min is given).  The single ID is not looked at.\<close>

definition entry_rejected :: "Trunk \<Rightarrow> bool" where
  "entry_rejected item =
     ((case MinID item of None \<Rightarrow> False | Some lo \<Rightarrow> lo > 4096) \<or>
      (case MaxID item of None \<Rightarrow> False
       | Some hi \<Rightarrow> hi > 4096 \<or> hi < (case MinID item of None \<Rightarrow> 0 | Some lo \<Rightarrow> lo)))"

definition entry_added :: "Trunk \<Rightarrow> (nat \<times> bool) list \<Rightarrow> (nat \<times> bool) list" where
  "entry_added item vlans =
     (case ID item of None \<Rightarrow> id | Some i \<Rightarrow> AList.update i True)
       (case (MinID item, MaxID item) of
          (Some lo, Some hi) \<Rightarrow>
            if 1 \<le> lo then fold (\<lambda>v m. AList.update v True m) [lo..<Suc hi] vlans else vlans
        | _ \<Rightarrow> vlans)"

subsection \<open>Polling\<close>

text \<open>\<open>k\<close> rounds of the polling loop that did not end it: a poll and a sleep each; and
  whether the poll that follows them reports the state \<^verbatim>\<open>up\<close>.\<close>

definition poll_rounds :: "OvsBridgeDriver \<Rightarrow> string \<Rightarrow> 64 word \<Rightarrow> nat \<Rightarrow> call list" where
  "poll_rounds ovsDriver ofPortName checkInterval k =
     concat (replicate k [GetOFPortOpState ovsDriver ofPortName, Sleep checkInterval])"

definition poll_up :: "world \<Rightarrow> OvsBridgeDriver \<Rightarrow> string \<Rightarrow> 64 word \<Rightarrow> state \<Rightarrow> nat \<Rightarrow> bool" where
  "poll_up w ovsDriver ofPortName checkInterval s k =
     (GetOFPortOpState_ret w (history s @ poll_rounds ovsDriver ofPortName checkInterval k)
        (GetOFPortOpState ovsDriver ofPortName) = Inr ''up'')"

subsection \<open>A concrete world\<close>

text \<open>A request, a configuration and collaborators on which every call succeeds: a veth
  attachment to the bridge \<^verbatim>\<open>br0\<close> with the IPAM plugin \<^verbatim>\<open>host-local\<close>, which assigns
  10.0.0.5.  The examples below change one collaborator at a time.\<close>

definition example_args :: CmdArgs where
  "example_args =
     \<lparr>ContainerID = ''c1'', Netns = ''/run/netns/ns1'', IfName = ''net1'', Args = [],
      StdinData = ''{}''\<rparr>"

definition example_netconf :: NetConf where
  "example_netconf =
     \<lparr>CNIVersion = ''1.0.0'', BrName = ''br0'', VlanTag = None, Trunk = [],
      SocketFile = ''unix:/run/openvswitch/db.sock'', DeviceID = [], MTU = 1500,
      OfportRequest = 0, InterfaceType = [], IPAM_Type = ''host-local'',
      LinkStateCheckRetries = 5, LinkStateCheckInterval = 1000\<rparr>"

definition example_world :: world where
  "example_world =
     \<lparr>failure = (\<lambda>h c. None),
      LoadArgs = (\<lambda>a. Inr \<lparr>MAC = [], OvnPort = [], K8S_POD_UID = ''uid1''\<rparr>),
      LoadConf = (\<lambda>h d. Inr example_netconf),
      GetCRef = (\<lambda>cid ifName. cid @ ''-'' @ ifName),
      FindBridgeByInterface = (\<lambda>h sock uplink. Inr ''br0''),
      GetBridgeUplinkNameByDeviceID = (\<lambda>h dev. Inr [''eth0'']),
      IsOvsHardwareOffloadEnabled = (\<lambda>dev. dev \<noteq> []),
      HasUserspaceDriver = (\<lambda>h dev. Inr False),
      FindInterfacesWithError = (\<lambda>h drv. Inr []),
      GetVFLinkName = (\<lambda>h dev. Inr ''vf0''),
      GetNetRepresentor = (\<lambda>h dev. Inr ''rep0''),
      LinkByName = (\<lambda>h ns name. Inr \<lparr>Attrs_Name = name, Attrs_HardwareAddr = [2, 0, 0, 0, 0, 1]\<rparr>),
      InterfaceByName = (\<lambda>h ns name. Inr \<lparr>Iface_Name = name, Iface_HardwareAddr = [2, 0, 0, 0, 0, 2]\<rparr>),
      SetupVeth_ret = (\<lambda>h c. Inr (\<lparr>Iface_Name = ''veth1'', Iface_HardwareAddr = [2, 0, 0, 0, 0, 1]\<rparr>,
                                  \<lparr>Iface_Name = ''net1'', Iface_HardwareAddr = [2, 0, 0, 0, 0, 2]\<rparr>)),
      SetupSriovInterface_ret = (\<lambda>h c. Inr (\<lparr>Name = ''rep0'', Mac = [], Sandbox = []\<rparr>,
                                            \<lparr>Name = ''net1'', Mac = [], Sandbox = ''/run/netns/ns1''\<rparr>)),
      GetOvsPortForContIface_ret = (\<lambda>h c. (''veth1'', True, None)),
      GetOFPortOpState_ret = (\<lambda>h c. Inr ''up''),
      ExecAdd_ret = (\<lambda>h c. Inr \<lparr>Interfaces = [], IPs = [\<lparr>Interface = None, Address_IP = [10, 0, 0, 5]\<rparr>]\<rparr>),
      NewResultFromResult = (\<lambda>r. Inr r),
      HardwareAddr_String = (\<lambda>a. if a = [] then [] else ''mac''),
      IP_String = (\<lambda>ip. ''ip''),
      Sum256 = (\<lambda>d. replicate 32 7)\<rparr>"

definition example_state :: state where
  "example_state = \<lparr>history = [], cache = Map.empty\<rparr>"

text \<open>The port never reports \<^verbatim>\<open>up\<close>.\<close>

definition world_port_down :: world where
  "world_port_down = example_world\<lparr>GetOFPortOpState_ret := (\<lambda>h c. Inr ''down'')\<rparr>"

text \<open>The port reports \<^verbatim>\<open>up\<close> from the second poll on.\<close>

definition world_port_up_later :: world where
  "world_port_up_later =
     example_world\<lparr>GetOFPortOpState_ret := (\<lambda>h c. if length h \<ge> 2 then Inr ''up'' else Inr ''down'')\<rparr>"

text \<open>No link can be looked up by name in the host namespace.\<close>

definition world_no_host_link :: world where
  "world_no_host_link =
     example_world\<lparr>LinkByName := (\<lambda>h ns name.
        if ns = hostNetns then Inl (External ''Link not found'')
        else Inr \<lparr>Attrs_Name = name, Attrs_HardwareAddr = [2, 0, 0, 0, 0, 2]\<rparr>)\<rparr>"

subsection \<open>Calls made by a block\<close>

text \<open>The VLAN policy a call creates a port with, when the call is \<^verbatim>\<open>CreatePort\<close>.\<close>

definition CreatePort_vlan :: "call \<Rightarrow> (nat \<times> nat list \<times> string) option" where
  "CreatePort_vlan c =
     (case c of
        CreatePort drv hostIfaceName contNetnsPath contIfaceName ovnPortName ofportRequest
            vlanTag trunks portType intfType contPodUid \<Rightarrow> Some (vlanTag, trunks, portType)
      | _ \<Rightarrow> None)"

text \<open>\<open>steps P s s'\<close>: the history of \<open>s'\<close> is that of \<open>s\<close> followed by calls that all
  satisfy \<open>P\<close>.  \<open>quiet s s'\<close>: moreover none of them creates a port, and the cache store
  is the same.\<close>

definition steps :: "(call \<Rightarrow> bool) \<Rightarrow> state \<Rightarrow> state \<Rightarrow> bool" where
  "steps P s s' = (\<exists>tr. history s' = history s @ tr \<and> list_all P tr)"

definition quiet :: "state \<Rightarrow> state \<Rightarrow> bool" where
  "quiet s s' = (cache s' = cache s \<and> steps (\<lambda>c. CreatePort_vlan c = None) s s')"

subsection \<open>Rollback of an attach\<close>

text \<open>
  What is asked of a run of \<^verbatim>\<open>CmdAdd\<close> from the state \<open>s0\<close> in which a step fails in the
  state \<open>sf\<close> with the error \<open>e\<close>, after the switch port was created: the run returns \<open>e\<close>;
  after the failing step come the IPAM plugin's \<^verbatim>\<open>DEL\<close>, the lookup of the port by the
  container interface name and the namespace path, the deletion of the port that the
  lookup names when it finds one, and the closing of the namespace, and nothing else; the
  cache store is as it was at the failure and holds the configuration of this attach
  under the key of the container and the interface.
\<close>

definition attach_rolled_back :: "world \<Rightarrow> CmdArgs \<Rightarrow> CmdAdd_locals \<Rightarrow> state \<Rightarrow> state \<Rightarrow> error \<Rightarrow> bool" where
  "attach_rolled_back w args L s0 sf e =
     (let del = ExecDel (IPAM_Type (l_netconf L)) (StdinData args);
          lookup = GetOvsPortForContIface (l_ovsBridgeDriver L) (IfName args) (Netns args);
          found = GetOvsPortForContIface_ret w (history sf @ [del]) lookup
      in fst (CmdAdd w args s0) = Some e \<and>
         history (snd (CmdAdd w args s0)) =
           history sf @ [del, lookup] @
           (if fst (snd found) then [DeletePort (l_ovsBridgeDriver L) (fst found)] else []) @
           [NetNS_Close (Netns args)] \<and>
         cache (snd (CmdAdd w args s0)) = cache sf \<and>
         map_option Netconf (cache (snd (CmdAdd w args s0)) (GetCRef w (ContainerID args) (IfName args)))
           = Some (l_netconf L))"

text \<open>The IPAM plugin's \<^verbatim>\<open>ADD\<close> fails; the MAC cannot be set; the container interface
  cannot be configured; the IPAM plugin returns a result without addresses; the result
  of the attach cannot be printed.\<close>

definition world_ipam_fails :: world where
  "world_ipam_fails = example_world\<lparr>ExecAdd_ret := (\<lambda>h c. Inl (External ''no addresses left''))\<rparr>"

definition world_mac_fails :: world where
  "world_mac_fails =
     example_world\<lparr>failure := (\<lambda>h c. case c of
        LinkSetHardwareAddr ns name mac \<Rightarrow> Some (External ''operation not permitted'')
      | _ \<Rightarrow> None)\<rparr>"

definition world_configure_fails :: world where
  "world_configure_fails =
     example_world\<lparr>failure := (\<lambda>h c. case c of
        ConfigureIface ns name r \<Rightarrow> Some (External ''failed to add IP addr'')
      | _ \<Rightarrow> None)\<rparr>"

definition world_ipam_no_ips :: world where
  "world_ipam_no_ips = example_world\<lparr>ExecAdd_ret := (\<lambda>h c. Inr \<lparr>Interfaces = [], IPs = []\<rparr>)\<rparr>"

definition world_print_fails :: world where
  "world_print_fails =
     example_world\<lparr>failure := (\<lambda>h c. case c of
        PrintResult r v \<Rightarrow> Some (External ''write /dev/stdout: broken pipe'')
      | _ \<Rightarrow> None)\<rparr>"

text \<open>The local variables of \<^verbatim>\<open>CmdAdd\<close> and the state after the switch port was created,
  in the concrete world.\<close>

definition example_locals :: CmdAdd_locals where
  "example_locals =
     \<lparr>l_netconf = example_netconf, l_mac = [], l_ovnPort = [], l_contPodUid = [],
      l_vlanTagNum = 0, l_trunks = [], l_portType = ''trunk'',
      l_ovsBridgeDriver = (''br0'', ''unix:/run/openvswitch/db.sock''), l_userspaceMode = False\<rparr>"

definition example_cached :: CachedNetConf where
  "example_cached = \<lparr>Netconf = example_netconf, OrigIfName = [], UserspaceMode = False\<rparr>"

definition example_attached :: state where
  "example_attached =
     \<lparr>history =
        [SaveCache ''c1-net1'' example_cached,
         SetupVeth ''/run/netns/ns1'' ''net1'' 1500 [],
         LinkSetUp ''/run/netns/ns1'' ''net1'',
         CreatePort (''br0'', ''unix:/run/openvswitch/db.sock'') ''veth1'' ''/run/netns/ns1'' ''net1'' []
           0 0 [] ''trunk'' [] [],
         LinkSetUp [] ''veth1''],
      cache = [''c1-net1'' \<mapsto> example_cached]\<rparr>"

subsection \<open>Detach\<close>

text \<open>A state in which the cache holds the record of the attach of the concrete request;
  a world in which the switch database refuses to delete a port; a world in which the
  container's namespace is gone.\<close>

definition example_cached_state :: state where
  "example_cached_state = \<lparr>history = [], cache = [''c1-net1'' \<mapsto> example_cached]\<rparr>"

definition world_delete_fails :: world where
  "world_delete_fails =
     example_world\<lparr>failure := (\<lambda>h c. case c of
        DeletePort drv name \<Rightarrow> Some (External ''ovsdb transaction failed'')
      | _ \<Rightarrow> None)\<rparr>"

definition world_netns_gone :: world where
  "world_netns_gone =
     example_world\<lparr>failure := (\<lambda>h c. case c of
        GetNS path \<Rightarrow> Some (NSPathNotExistErr path)
      | _ \<Rightarrow> None)\<rparr>"

definition example_hostIface :: Interface where
  "example_hostIface = \<lparr>Name = ''veth1'', Mac = ''mac'', Sandbox = []\<rparr>"

definition example_contIface :: Interface where
  "example_contIface = \<lparr>Name = ''net1'', Mac = ''mac'', Sandbox = ''/run/netns/ns1''\<rparr>"

definition example_newResult :: Result where
  "example_newResult = \<lparr>Interfaces = [], IPs = [\<lparr>Interface = None, Address_IP = [10, 0, 0, 5]\<rparr>]\<rparr>"

definition example_newResult1 :: Result where
  "example_newResult1 =
     \<lparr>Interfaces = [example_contIface], IPs = [\<lparr>Interface = Some 0, Address_IP = [10, 0, 0, 5]\<rparr>]\<rparr>"

text \<open>The calls of the concrete run after the switch port was created, and the states in
  which the steps of the examples fail.\<close>

definition example_add :: call where
  "example_add = ExecAdd ''host-local'' ''{}''"

definition example_poll :: call where
  "example_poll = GetOFPortOpState (''br0'', ''unix:/run/openvswitch/db.sock'') ''veth1''"

definition example_set_mac :: call where
  "example_set_mac = LinkSetHardwareAddr ''/run/netns/ns1'' ''net1'' [10, 88, 10, 0, 0, 5]"

definition example_configure :: call where
  "example_configure = ConfigureIface ''/run/netns/ns1'' ''net1'' example_newResult1"

definition example_after :: "call list \<Rightarrow> state" where
  "example_after calls = example_attached\<lparr>history := history example_attached @ calls\<rparr>"

section \<open>Properties of the trunk resolver\<close>

lemma keys_fold_update:
  "fst ` set (fold (\<lambda>v m. AList.update v True m) xs al) = set xs \<union> fst ` set al"
  by (induction xs arbitrary: al) (auto simp: dom_update)

lemma distinct_fold_update:
  "distinct (map fst al) \<Longrightarrow> distinct (map fst (fold (\<lambda>v m. AList.update v True m) xs al))"
  by (induction xs arbitrary: al) (auto simp: distinct_update)

lemma splitVlanIds_item_accepted:
  "\<not> entry_rejected item \<Longrightarrow> splitVlanIds_item item vlans = Inr (entry_added item vlans)"
  by (cases "MinID item"; cases "MaxID item"; cases "ID item")
    (auto simp del: upt_Suc simp add: splitVlanIds_item_def entry_rejected_def entry_added_def Let_def)

lemma splitVlanIds_item_rejected:
  "entry_rejected item \<Longrightarrow> isl (splitVlanIds_item item vlans)"
  by (cases "MinID item"; cases "MaxID item"; cases "ID item")
    (auto simp del: upt_Suc simp add: splitVlanIds_item_def entry_rejected_def Let_def)

lemma keys_entry_added:
  "fst ` set (entry_added item vlans) = fst ` set vlans \<union> entry_ids item"
  by (cases "MinID item"; cases "MaxID item"; cases "ID item")
    (auto simp del: upt_Suc simp add: entry_added_def entry_ids_def keys_fold_update dom_update)

lemma distinct_entry_added:
  "distinct (map fst vlans) \<Longrightarrow> distinct (map fst (entry_added item vlans))"
  by (cases "MinID item"; cases "MaxID item"; cases "ID item")
    (auto simp del: upt_Suc simp add: entry_added_def distinct_fold_update distinct_update)

lemma splitVlanIds_item_Inr:
  assumes "splitVlanIds_item item vlans = Inr vlans'"
  shows "fst ` set vlans' = fst ` set vlans \<union> entry_ids item"
    and "distinct (map fst vlans) \<Longrightarrow> distinct (map fst vlans')"
    and "\<not> entry_rejected item"
proof -
  show r: "\<not> entry_rejected item"
    using assms splitVlanIds_item_rejected[of item vlans] by auto
  from splitVlanIds_item_accepted[OF r, of vlans] assms have e: "vlans' = entry_added item vlans"
    by simp
  show "fst ` set vlans' = fst ` set vlans \<union> entry_ids item"
    by (simp only: e keys_entry_added)
  show "distinct (map fst vlans) \<Longrightarrow> distinct (map fst vlans')"
    by (simp only: e distinct_entry_added)
qed

lemma splitVlanIds_item_Inl:
  "splitVlanIds_item item vlans = Inl e \<Longrightarrow> entry_rejected item"
  using splitVlanIds_item_accepted[of item vlans] by auto

lemma splitVlanIds_loop_Inr:
  assumes "splitVlanIds_loop trunks vlans = Inr vlans'"
  shows "fst ` set vlans' = fst ` set vlans \<union> (\<Union>item\<in>set trunks. entry_ids item)
       \<and> (distinct (map fst vlans) \<longrightarrow> distinct (map fst vlans'))
       \<and> \<not> list_ex entry_rejected trunks"
  using assms
proof (induction trunks arbitrary: vlans)
  case Nil
  then show ?case by simp
next
  case (Cons item trunks)
  then obtain v1 where 1: "splitVlanIds_item item vlans = Inr v1"
    and 2: "splitVlanIds_loop trunks v1 = Inr vlans'"
    by (auto split: sum.splits)
  from Cons.IH[OF 2] splitVlanIds_item_Inr[OF 1] show ?case by auto
qed

lemma splitVlanIds_loop_Inl:
  "splitVlanIds_loop trunks vlans = Inl e \<Longrightarrow> list_ex entry_rejected trunks"
  by (induction trunks arbitrary: vlans) (auto split: sum.splits dest: splitVlanIds_item_Inl)

lemma splitVlanIds_Inr:
  assumes "splitVlanIds trunks = Inr ids"
  shows "sorted_wrt (<) ids \<and> distinct ids \<and> ids \<noteq> [] \<and>
         set ids = (\<Union>item\<in>set trunks. entry_ids item)"
proof -
  from assms obtain vlans where l: "splitVlanIds_loop trunks [] = Inr vlans"
    and ne: "vlans \<noteq> []" and ids: "ids = sort (map fst vlans)"
    by (auto simp: splitVlanIds_def split: sum.splits if_splits)
  from splitVlanIds_loop_Inr[OF l] have k: "fst ` set vlans = (\<Union>item\<in>set trunks. entry_ids item)"
    and d: "distinct (map fst vlans)" by auto
  from ne have "set (sort (map fst vlans)) \<noteq> {}" by simp
  then have "sort (map fst vlans) \<noteq> []" by (simp del: set_sort)
  then show ?thesis using k d by (simp add: ids strict_sorted_iff)
qed

text \<open>When \<^verbatim>\<open>splitVlanIds\<close> fails: an entry is rejected for its bounds, or no entry
  contributes an ID.\<close>

lemma splitVlanIds_fails_iff:
  "isl (splitVlanIds trunks) \<longleftrightarrow>
     list_ex entry_rejected trunks \<or> (\<Union>item\<in>set trunks. entry_ids item) = {}"
proof (cases "splitVlanIds_loop trunks []")
  case (Inl e)
  then show ?thesis using splitVlanIds_loop_Inl[OF Inl] by (simp add: splitVlanIds_def)
next
  case (Inr vlans)
  from splitVlanIds_loop_Inr[OF Inr] have "fst ` set vlans = (\<Union>item\<in>set trunks. entry_ids item)"
    and "\<not> list_ex entry_rejected trunks" by auto
  moreover have "vlans = [] \<longleftrightarrow> fst ` set vlans = {}" by simp
  ultimately show ?thesis using Inr by (simp add: splitVlanIds_def)
qed

lemma entry_ids_eq_spec:
  "MinID item \<noteq> Some 0 \<Longrightarrow> entry_ids item = spec_entry_ids item"
  by (cases "MinID item"; cases "MaxID item") (auto simp: entry_ids_def spec_entry_ids_def)

lemma splitVlanIds_example:
  "splitVlanIds [\<lparr>MinID = Some 10, MaxID = Some 12, ID = None\<rparr>,
                 \<lparr>MinID = None, MaxID = None, ID = Some 12\<rparr>] = Inr [10, 11, 12]"
  by (simp add: splitVlanIds_def splitVlanIds_item_def)

text \<open>
  C4.  The claim: \<^verbatim>\<open>splitVlanIds\<close> fails if and only if some specified ID or bound is
  greater than 4096, some range has its max below its min, or no ID is accumulated; in
  particular a single ID above 4096 is rejected.  The code compares \<^verbatim>\<open>minID\<close>, not
  \<^verbatim>\<open>id\<close>, with 4096 before it returns \<^verbatim>\<open>incorrect trunk id parameter\<close>: the entry with
  the single ID 5000 is accepted and 5000 is returned.
\<close>

theorem splitVlanIds_accepts_id_above_4096:
  "splitVlanIds [\<lparr>MinID = None, MaxID = None, ID = Some 5000\<rparr>] = Inr [5000]"
  by (simp add: splitVlanIds_def splitVlanIds_item_def)

text \<open>
  C5, as the claim states it, fails: an entry with the range 0 to 5 and the single ID 7
  is resolved to the sequence 7 alone, since a range is added only when its min and its
  max are both above 0.
\<close>

theorem splitVlanIds_range_from_zero_counterexample:
  "splitVlanIds [\<lparr>MinID = Some 0, MaxID = Some 5, ID = Some 7\<rparr>] = Inr [7] \<and>
   3 \<in> (\<Union>item\<in>set [\<lparr>MinID = Some 0, MaxID = Some 5, ID = Some 7\<rparr>]. spec_entry_ids item) \<and>
   3 \<notin> set [7::nat]"
  by (simp add: splitVlanIds_def splitVlanIds_item_def spec_entry_ids_def)

text \<open>
  C5, amended.  Whenever \<^verbatim>\<open>splitVlanIds\<close> succeeds, the sequence it returns is not empty,
  strictly increasing and free of duplicates, and its members are exactly the single IDs
  of the entries and the members of the ranges whose min is at least 1 (a range whose min
  is 0 adds nothing); when no entry gives the min 0, that is the union of all single IDs
  and range members.  For the range 10 to 12 and the single ID 12 the result is 10, 11, 12.
\<close>

theorem splitVlanIds_sorted_union:
  "(splitVlanIds trunks = Inr ids \<longrightarrow>
      sorted_wrt (<) ids \<and> distinct ids \<and> ids \<noteq> [] \<and>
      set ids = (\<Union>item\<in>set trunks. entry_ids item) \<and>
      (list_all (\<lambda>item. MinID item \<noteq> Some 0) trunks \<longrightarrow>
         set ids = (\<Union>item\<in>set trunks. spec_entry_ids item))) \<and>
   splitVlanIds [\<lparr>MinID = Some 10, MaxID = Some 12, ID = None\<rparr>,
                 \<lparr>MinID = None, MaxID = None, ID = Some 12\<rparr>] = Inr [10, 11, 12]"
proof -
  have "set ids = (\<Union>item\<in>set trunks. spec_entry_ids item)"
    if "splitVlanIds trunks = Inr ids" "list_all (\<lambda>item. MinID item \<noteq> Some 0) trunks"
  proof -
    from that(2) have "(\<Union>item\<in>set trunks. entry_ids item) = (\<Union>item\<in>set trunks. spec_entry_ids item)"
      by (simp add: list_all_iff entry_ids_eq_spec)
    with splitVlanIds_Inr[OF that(1)] show ?thesis by simp
  qed
  then show ?thesis using splitVlanIds_Inr[of trunks ids] splitVlanIds_example by blast
qed

theorem splitVlanIds_sorted_union_witness:
  "splitVlanIds [\<lparr>MinID = Some 3, MaxID = Some 4, ID = Some 9\<rparr>, \<lparr>MinID = None, MaxID = None, ID = Some 4\<rparr>]
     = Inr [3, 4, 9] \<and>
   sorted_wrt (<) [3, 4, 9::nat] \<and> distinct [3, 4, 9::nat] \<and>
   set [3, 4, 9::nat] =
     (\<Union>item\<in>set [\<lparr>MinID = Some 3, MaxID = Some 4, ID = Some 9\<rparr>, \<lparr>MinID = None, MaxID = None, ID = Some 4\<rparr>].
        spec_entry_ids item)"
proof -
  have e: "splitVlanIds [\<lparr>MinID = Some 3, MaxID = Some 4, ID = Some 9\<rparr>, \<lparr>MinID = None, MaxID = None, ID = Some 4\<rparr>]
             = Inr [3, 4, 9]"
    by (simp add: splitVlanIds_def splitVlanIds_item_def)
  have a: "list_all (\<lambda>item. MinID item \<noteq> Some 0)
             [\<lparr>MinID = Some 3, MaxID = Some 4, ID = Some 9\<rparr>, \<lparr>MinID = None, MaxID = None, ID = Some 4\<rparr>]"
    by simp
  show ?thesis
    using e a splitVlanIds_sorted_union
      [of "[\<lparr>MinID = Some 3, MaxID = Some 4, ID = Some 9\<rparr>, \<lparr>MinID = None, MaxID = None, ID = Some 4\<rparr>]" "[3, 4, 9]"]
    by auto
qed

section \<open>Properties of the bridge resolver\<close>

lemma getBridgeName_uplinks_all_fail:
  "list_all (\<lambda>c. isl (findBridge c)) names \<Longrightarrow>
   getBridgeName_uplinks findBridge names errList =
     Inl (errList @ map (\<lambda>c. FailedFindBridgeByUplink c (projl (findBridge c))) names)"
  by (induction names arbitrary: errList) (auto split: sum.splits)

lemma getBridgeName_uplinks_first:
  "list_all (\<lambda>c. isl (findBridge c)) pre \<Longrightarrow> findBridge u = Inr b \<Longrightarrow>
   getBridgeName_uplinks findBridge (pre @ u # post) errList = Inr b"
  by (induction pre arbitrary: errList) (auto split: sum.splits)

lemma getBridgeName_uplinks_Inl:
  "getBridgeName_uplinks findBridge names errList = Inl errs \<Longrightarrow>
   list_all (\<lambda>c. isl (findBridge c)) names"
  by (induction names arbitrary: errList) (auto split: sum.splits)

text \<open>
  C7.  \<^verbatim>\<open>getBridgeName\<close> decides in a fixed order.  A bridge name that is not empty is
  returned as it is.  Otherwise a port identifier (\<^verbatim>\<open>ovnPort\<close>) that is not empty gives
  \<^verbatim>\<open>br-int\<close>.  Otherwise, with a device identifier that is not empty: when the candidate
  uplinks cannot be resolved, that failure is returned; the bridge of the first candidate
  whose lookup succeeds is returned; the consolidated failure, which lists the error of
  every candidate, is returned exactly when the lookup fails for every candidate, and no
  other failure occurs once the candidates are known.  With all three empty it fails.
\<close>

theorem getBridgeName_priority:
  "(bridgeName \<noteq> [] \<longrightarrow> getBridgeName findBridge uplinks bridgeName ovnPort deviceID = Inr bridgeName) \<and>
   (bridgeName = [] \<and> ovnPort \<noteq> [] \<longrightarrow>
      getBridgeName findBridge uplinks bridgeName ovnPort deviceID = Inr ''br-int'') \<and>
   (bridgeName = [] \<and> ovnPort = [] \<and> deviceID \<noteq> [] \<longrightarrow>
      (\<forall>err. uplinks deviceID = Inl err \<longrightarrow>
         getBridgeName findBridge uplinks bridgeName ovnPort deviceID = Inl (FailedResolveUplink err)) \<and>
      (\<forall>pre u post b. uplinks deviceID = Inr (pre @ u # post) \<and>
           list_all (\<lambda>c. isl (findBridge c)) pre \<and> findBridge u = Inr b \<longrightarrow>
         getBridgeName findBridge uplinks bridgeName ovnPort deviceID = Inr b) \<and>
      (\<forall>names. uplinks deviceID = Inr names \<longrightarrow>
         (list_all (\<lambda>c. isl (findBridge c)) names \<longleftrightarrow>
          getBridgeName findBridge uplinks bridgeName ovnPort deviceID =
            Inl (FailedFindBridgeByUplinks names
                   (map (\<lambda>c. FailedFindBridgeByUplink c (projl (findBridge c))) names))) \<and>
         (isl (getBridgeName findBridge uplinks bridgeName ovnPort deviceID) \<longrightarrow>
            list_all (\<lambda>c. isl (findBridge c)) names))) \<and>
   (bridgeName = [] \<and> ovnPort = [] \<and> deviceID = [] \<longrightarrow>
      getBridgeName findBridge uplinks bridgeName ovnPort deviceID = Inl FailedGetBridgeName)"
  by (auto simp: getBridgeName_def getBridgeName_uplinks_first getBridgeName_uplinks_all_fail
      split: sum.splits dest: getBridgeName_uplinks_Inl)

theorem getBridgeName_priority_witness:
  "getBridgeName (\<lambda>c. if c = ''eth1'' then Inr ''br1'' else Inl (External ''no bridge''))
     (\<lambda>dev. Inr [''eth0'', ''eth1'', ''eth2'']) [] [] ''0000:3b:00.2'' = Inr ''br1'' \<and>
   getBridgeName (\<lambda>c. Inl (External ''no bridge''))
     (\<lambda>dev. Inr [''eth0'', ''eth1'']) [] [] ''0000:3b:00.2'' =
     Inl (FailedFindBridgeByUplinks [''eth0'', ''eth1'']
            [FailedFindBridgeByUplink ''eth0'' (External ''no bridge''),
             FailedFindBridgeByUplink ''eth1'' (External ''no bridge'')]) \<and>
   getBridgeName (\<lambda>c. Inr ''br1'') (\<lambda>dev. Inr [''eth0'']) ''br0'' ''port1'' ''0000:3b:00.2'' = Inr ''br0'' \<and>
   getBridgeName (\<lambda>c. Inr ''br1'') (\<lambda>dev. Inr [''eth0'']) [] ''port1'' ''0000:3b:00.2'' = Inr ''br-int'' \<and>
   getBridgeName (\<lambda>c. Inr ''br1'') (\<lambda>dev. Inr [''eth0'']) [] [] [] = Inl FailedGetBridgeName"
proof -
  let ?f = "\<lambda>c. if c = ''eth1'' then Inr ''br1'' else Inl (External ''no bridge'')"
  let ?g = "\<lambda>dev::string. Inr [''eth0'', ''eth1'', ''eth2''] :: error + string list"
  let ?fn = "\<lambda>c::string. Inl (External ''no bridge'') :: error + string"
  let ?gn = "\<lambda>dev::string. Inr [''eth0'', ''eth1''] :: error + string list"
  let ?fk = "\<lambda>c::string. Inr ''br1'' :: error + string"
  let ?gk = "\<lambda>dev::string. Inr [''eth0''] :: error + string list"
  have "\<forall>pre u post b. ?g ''0000:3b:00.2'' = Inr (pre @ u # post) \<and>
           list_all (\<lambda>c. isl (?f c)) pre \<and> ?f u = Inr b \<longrightarrow>
         getBridgeName ?f ?g [] [] ''0000:3b:00.2'' = Inr b"
    using getBridgeName_priority[of "[]" ?f ?g "[]" "''0000:3b:00.2''"] by blast
  from this[rule_format, of "[''eth0'']" "''eth1''" "[''eth2'']" "''br1''"]
  have 1: "getBridgeName ?f ?g [] [] ''0000:3b:00.2'' = Inr ''br1''" by simp
  have "\<forall>names. ?gn ''0000:3b:00.2'' = Inr names \<longrightarrow>
         (list_all (\<lambda>c. isl (?fn c)) names \<longleftrightarrow>
          getBridgeName ?fn ?gn [] [] ''0000:3b:00.2'' =
            Inl (FailedFindBridgeByUplinks names
                   (map (\<lambda>c. FailedFindBridgeByUplink c (projl (?fn c))) names)))"
    using getBridgeName_priority[of "[]" ?fn ?gn "[]" "''0000:3b:00.2''"] by blast
  from this[rule_format, of "[''eth0'', ''eth1'']"]
  have 2: "getBridgeName ?fn ?gn [] [] ''0000:3b:00.2'' =
     Inl (FailedFindBridgeByUplinks [''eth0'', ''eth1'']
            [FailedFindBridgeByUplink ''eth0'' (External ''no bridge''),
             FailedFindBridgeByUplink ''eth1'' (External ''no bridge'')])"
    by simp
  have 3: "getBridgeName ?fk ?gk ''br0'' ''port1'' ''0000:3b:00.2'' = Inr ''br0''"
    using getBridgeName_priority[of "''br0''" ?fk ?gk "''port1''" "''0000:3b:00.2''"] by simp
  have 4: "getBridgeName ?fk ?gk [] ''port1'' ''0000:3b:00.2'' = Inr ''br-int''"
    using getBridgeName_priority[of "[]" ?fk ?gk "''port1''" "''0000:3b:00.2''"] by simp
  have 5: "getBridgeName ?fk ?gk [] [] [] = Inl FailedGetBridgeName"
    using getBridgeName_priority[of "[]" ?fk ?gk "[]" "[]"] by simp
  show ?thesis using 1 2 3 4 5 by simp
qed

section \<open>Properties of the derived hardware address\<close>

lemma list4: "length xs = 4 \<Longrightarrow> xs = [xs ! 0, xs ! 1, xs ! 2, xs ! 3]"
  by (auto simp: numeral_eq_Suc length_Suc_conv)

lemma take4: "length xs = 32 \<Longrightarrow> take 4 xs = [xs ! 0, xs ! 1, xs ! 2, xs ! 3]"
proof -
  assume "length xs = 32"
  then have "length (take 4 xs) = 4" by simp
  from list4[OF this] show ?thesis by simp
qed

lemma To4_length: "To4 ip = Some ip4 \<Longrightarrow> length ip4 = 4"
  by (auto simp: To4_def split: if_splits)

text \<open>
  C8.  \<^verbatim>\<open>IPAddrToHWAddr\<close> is a function of the address (and of the standard library's
  \<^verbatim>\<open>String\<close> and \<^verbatim>\<open>Sum256\<close>): the same address gives the same hardware address.  The
  IPv4 address a.b.c.d, in its 4-byte or in its 16-byte form, gives 0A:58:a:b:c:d; in
  general an address with a 4-byte form gives 0A:58 followed by that form.  Any other
  address gives 0A:58 followed by the first four bytes of the SHA-256 hash, 32 bytes long,
  of the address string.  10.0.0.5 gives 0A:58:0A:00:00:05.
\<close>

theorem IPAddrToHWAddr_deterministic:
  "IPAddrToHWAddr w [a, b, c, d] = [0x0A, 0x58, a, b, c, d] \<and>
   IPAddrToHWAddr w [0, 0, 0, 0, 0, 0, 0, 0, 0, 0, 0xff, 0xff, a, b, c, d] = [0x0A, 0x58, a, b, c, d] \<and>
   (To4 ip = None \<longrightarrow> length (Sum256 w (IP_String w ip)) = 32 \<longrightarrow>
      IPAddrToHWAddr w ip = [0x0A, 0x58] @ take 4 (Sum256 w (IP_String w ip))) \<and>
   (\<forall>ip4. To4 ip = Some ip4 \<longrightarrow> length ip4 = 4 \<and> IPAddrToHWAddr w ip = [0x0A, 0x58] @ ip4) \<and>
   (ip = ip' \<longrightarrow> IPAddrToHWAddr w ip = IPAddrToHWAddr w ip') \<and>
   IPAddrToHWAddr w [10, 0, 0, 5] = [0x0A, 0x58, 0x0A, 0x00, 0x00, 0x05]"
proof -
  have 1: "IPAddrToHWAddr w [a, b, c, d] = [0x0A, 0x58, a, b, c, d]" for a b c d
    by (simp add: IPAddrToHWAddr_def To4_def)
  have 2: "IPAddrToHWAddr w [0, 0, 0, 0, 0, 0, 0, 0, 0, 0, 0xff, 0xff, a, b, c, d] = [0x0A, 0x58, a, b, c, d]"
    by (simp add: IPAddrToHWAddr_def To4_def)
  have 3: "IPAddrToHWAddr w ip = [0x0A, 0x58] @ take 4 (Sum256 w (IP_String w ip))"
    if "To4 ip = None" "length (Sum256 w (IP_String w ip)) = 32"
    using that by (simp add: IPAddrToHWAddr_def Let_def take4)
  have 4: "length ip4 = 4 \<and> IPAddrToHWAddr w ip = [0x0A, 0x58] @ ip4" if "To4 ip = Some ip4" for ip4
    using that list4[OF To4_length[OF that]] by (simp add: IPAddrToHWAddr_def To4_length)
  show ?thesis using 1 2 3 4 by simp
qed

theorem IPAddrToHWAddr_deterministic_witness:
  "To4 [0x20, 0x01, 0x0d, 0xb8, 0, 0, 0, 0, 0, 0, 0, 0, 0, 0, 0, 1] = None \<and>
   length (Sum256 example_world (IP_String example_world [0x20, 0x01, 0x0d, 0xb8, 0, 0, 0, 0, 0, 0, 0, 0, 0, 0, 0, 1])) = 32 \<and>
   IPAddrToHWAddr example_world [0x20, 0x01, 0x0d, 0xb8, 0, 0, 0, 0, 0, 0, 0, 0, 0, 0, 0, 1]
     = [0x0A, 0x58, 7, 7, 7, 7] \<and>
   To4 [0, 0, 0, 0, 0, 0, 0, 0, 0, 0, 0xff, 0xff, 192, 168, 1, 9] = Some [192, 168, 1, 9] \<and>
   IPAddrToHWAddr example_world [0, 0, 0, 0, 0, 0, 0, 0, 0, 0, 0xff, 0xff, 192, 168, 1, 9]
     = [0x0A, 0x58, 192, 168, 1, 9]"
proof -
  let ?ip6 = "[0x20, 0x01, 0x0d, 0xb8, 0, 0, 0, 0, 0, 0, 0, 0, 0, 0, 0, 1] :: byte list"
  let ?ip4 = "[0, 0, 0, 0, 0, 0, 0, 0, 0, 0, 0xff, 0xff, 192, 168, 1, 9] :: byte list"
  have a: "To4 ?ip6 = None" by (simp add: To4_def)
  have b: "length (Sum256 example_world (IP_String example_world ?ip6)) = 32"
    by (simp add: example_world_def)
  have c: "To4 ?ip4 = Some [192, 168, 1, 9]" by (simp add: To4_def)
  have d: "take 4 (Sum256 example_world (IP_String example_world ?ip6)) = [7, 7, 7, 7]"
    by (simp add: example_world_def numeral_eq_Suc)
  from IPAddrToHWAddr_deterministic[of example_world _ _ _ _ ?ip6 ?ip6] a b d
  have 1: "IPAddrToHWAddr example_world ?ip6 = [0x0A, 0x58, 7, 7, 7, 7]" by simp
  from IPAddrToHWAddr_deterministic[of example_world _ _ _ _ ?ip4 ?ip4] c
  have 2: "IPAddrToHWAddr example_world ?ip4 = [0x0A, 0x58, 192, 168, 1, 9]" by simp
  show ?thesis using a b c 1 2 by simp
qed

section \<open>Properties of the host interface refetch\<close>

text \<open>
  C10.  \<^verbatim>\<open>refetchIface\<close> never returns an error and keeps the interface's name.  When
  the lookup of the link by name fails, \<^verbatim>\<open>getHardwareAddr\<close> returns the empty string and
  the MAC field is set to it; \<^verbatim>\<open>setupVeth\<close> then still returns the interface pair,
  with an empty MAC on the host side, so the attach goes on.
\<close>

theorem refetchIface_never_fails:
  "fst (refetchIface w ns iface s) = None \<and>
   Name (snd (refetchIface w ns iface s)) = Name iface \<and>
   (\<forall>err. LinkByName w (history s) ns (Name iface) = Inl err \<longrightarrow>
      Mac (snd (refetchIface w ns iface s)) = []) \<and>
   (\<forall>err. LinkByName w h ns ifName = Inl err \<longrightarrow> getHardwareAddr w ns h ifName = []) \<and>
   (\<forall>hostIface contIface s1 err.
      NetNS_Do w contNetns (setupVeth_toRun w contNetns contIfaceName requestedMac mtu
         (\<lparr>Name = [], Mac = [], Sandbox = []\<rparr>, \<lparr>Name = [], Mac = [], Sandbox = []\<rparr>))
         (\<lparr>Name = [], Mac = [], Sandbox = []\<rparr>, \<lparr>Name = [], Mac = [], Sandbox = []\<rparr>) s0
        = ((None, hostIface, contIface), s1) \<and>
      LinkByName w (history s1) hostNetns (Name hostIface) = Inl err \<longrightarrow>
      setupVeth w contNetns contIfaceName requestedMac mtu s0 = (Inr (hostIface\<lparr>Mac := []\<rparr>, contIface), s1))"
  by (auto simp: refetchIface_def getHardwareAddr_def setupVeth_def Let_def)

lemma setupVeth_toRun_example:
  "NetNS_Do world_no_host_link ''/run/netns/ns1''
     (setupVeth_toRun world_no_host_link ''/run/netns/ns1'' ''net1'' [] 1500
        (\<lparr>Name = [], Mac = [], Sandbox = []\<rparr>, \<lparr>Name = [], Mac = [], Sandbox = []\<rparr>))
     (\<lparr>Name = [], Mac = [], Sandbox = []\<rparr>, \<lparr>Name = [], Mac = [], Sandbox = []\<rparr>) example_state
   = ((None, \<lparr>Name = ''veth1'', Mac = [], Sandbox = []\<rparr>,
             \<lparr>Name = ''net1'', Mac = ''mac'', Sandbox = ''/run/netns/ns1''\<rparr>),
      \<lparr>history = [SetupVeth ''/run/netns/ns1'' ''net1'' 1500 [], LinkSetUp ''/run/netns/ns1'' ''net1''],
       cache = Map.empty\<rparr>)"
  by (simp add: NetNS_Do_def setupVeth_toRun_def setInterfaceUp_def request_def perform_def
      world_no_host_link_def example_world_def example_state_def hostNetns_def)

theorem refetchIface_never_fails_witness:
  "LinkByName world_no_host_link
     [SetupVeth ''/run/netns/ns1'' ''net1'' 1500 [], LinkSetUp ''/run/netns/ns1'' ''net1'']
     hostNetns ''veth1'' = Inl (External ''Link not found'') \<and>
   setupVeth world_no_host_link ''/run/netns/ns1'' ''net1'' [] 1500 example_state =
     (Inr (\<lparr>Name = ''veth1'', Mac = [], Sandbox = []\<rparr>,
           \<lparr>Name = ''net1'', Mac = ''mac'', Sandbox = ''/run/netns/ns1''\<rparr>),
      \<lparr>history = [SetupVeth ''/run/netns/ns1'' ''net1'' 1500 [], LinkSetUp ''/run/netns/ns1'' ''net1''],
       cache = Map.empty\<rparr>) \<and>
   fst (refetchIface world_no_host_link hostNetns \<lparr>Name = ''veth1'', Mac = ''02:00'', Sandbox = []\<rparr>
          example_state) = None \<and>
   Mac (snd (refetchIface world_no_host_link hostNetns \<lparr>Name = ''veth1'', Mac = ''02:00'', Sandbox = []\<rparr>
          example_state)) = []"
proof -
  let ?h = "[SetupVeth ''/run/netns/ns1'' ''net1'' 1500 [], LinkSetUp ''/run/netns/ns1'' ''net1'']"
  let ?s1 = "\<lparr>history = ?h, cache = Map.empty\<rparr>"
  have l: "LinkByName world_no_host_link h hostNetns n = Inl (External ''Link not found'')" for h n
    by (simp add: world_no_host_link_def example_world_def)
  have "\<forall>hostIface contIface s1 err.
      NetNS_Do world_no_host_link ''/run/netns/ns1''
        (setupVeth_toRun world_no_host_link ''/run/netns/ns1'' ''net1'' [] 1500
           (\<lparr>Name = [], Mac = [], Sandbox = []\<rparr>, \<lparr>Name = [], Mac = [], Sandbox = []\<rparr>))
        (\<lparr>Name = [], Mac = [], Sandbox = []\<rparr>, \<lparr>Name = [], Mac = [], Sandbox = []\<rparr>) example_state
        = ((None, hostIface, contIface), s1) \<and>
      LinkByName world_no_host_link (history s1) hostNetns (Name hostIface) = Inl err \<longrightarrow>
      setupVeth world_no_host_link ''/run/netns/ns1'' ''net1'' [] 1500 example_state
        = (Inr (hostIface\<lparr>Mac := []\<rparr>, contIface), s1)"
    using refetchIface_never_fails[of world_no_host_link hostNetns "\<lparr>Name = [], Mac = [], Sandbox = []\<rparr>"
        example_state "[]" "[]" "''/run/netns/ns1''" "''net1''" "[]" 1500 example_state]
    by blast
  from this[rule_format, of "\<lparr>Name = ''veth1'', Mac = [], Sandbox = []\<rparr>"
      "\<lparr>Name = ''net1'', Mac = ''mac'', Sandbox = ''/run/netns/ns1''\<rparr>" ?s1 "External ''Link not found''"]
    setupVeth_toRun_example l[of ?h "''veth1''"]
  have 1: "setupVeth world_no_host_link ''/run/netns/ns1'' ''net1'' [] 1500 example_state =
     (Inr (\<lparr>Name = ''veth1'', Mac = [], Sandbox = []\<rparr>,
           \<lparr>Name = ''net1'', Mac = ''mac'', Sandbox = ''/run/netns/ns1''\<rparr>), ?s1)"
    by simp
  have 2: "fst (refetchIface world_no_host_link hostNetns \<lparr>Name = ''veth1'', Mac = ''02:00'', Sandbox = []\<rparr> example_state) = None \<and>
     Mac (snd (refetchIface world_no_host_link hostNetns \<lparr>Name = ''veth1'', Mac = ''02:00'', Sandbox = []\<rparr> example_state)) = []"
    using refetchIface_never_fails[of world_no_host_link hostNetns "\<lparr>Name = ''veth1'', Mac = ''02:00'', Sandbox = []\<rparr>" example_state]
      l[of "history example_state" "''veth1''"]
    by simp
  show ?thesis using 1 2 l[of ?h "''veth1''"] by simp
qed

section \<open>Properties of the link-state polling\<close>

lemma poll_rounds_Suc:
  "poll_rounds d p ci (Suc k) = [GetOFPortOpState d p, Sleep ci] @ poll_rounds d p ci k"
  by (simp add: poll_rounds_def)

lemma poll_up_Suc:
  "poll_up w d p ci s (Suc k) = poll_up w d p ci (recorded (Sleep ci) (recorded (GetOFPortOpState d p) s)) k"
  by (simp add: poll_up_def poll_rounds_Suc recorded_def)

lemma waitLinkUp_loop_polls:
  assumes "i \<le> retryCount"
  shows "\<exists>n. 1 \<le> n \<and> int n \<le> retryCount - i + 1 \<and>
           history (snd (waitLinkUp_loop w d p retryCount ci i s)) =
             history s @ poll_rounds d p ci (n - 1) @ [GetOFPortOpState d p] \<and>
           cache (snd (waitLinkUp_loop w d p retryCount ci i s)) = cache s \<and>
           (\<forall>k<n - 1. \<not> poll_up w d p ci s k) \<and>
           (if poll_up w d p ci s (n - 1)
            then fst (waitLinkUp_loop w d p retryCount ci i s) = None
            else int n = retryCount - i + 1 \<and>
                 fst (waitLinkUp_loop w d p retryCount ci i s) = Some (OFPortNotUp p))"
  using assms
proof (induction "nat (retryCount - i)" arbitrary: i s)
  case 0
  then have eq: "i = retryCount" by simp
  let ?s1 = "recorded (GetOFPortOpState d p) s"
  have up0: "poll_up w d p ci s 0 \<longleftrightarrow> GetOFPortOpState_ret w (history s) (GetOFPortOpState d p) = Inr ''up''"
    by (simp add: poll_up_def poll_rounds_def)
  have "waitLinkUp_loop w d p retryCount ci i s =
          (if poll_up w d p ci s 0 then None else Some (OFPortNotUp p), ?s1)"
    using eq up0 by (subst waitLinkUp_loop.simps) (simp add: request_def recorded_def Let_def)
  then show ?case using eq
    by (intro exI[of _ 1]) (simp add: recorded_def poll_rounds_def)
next
  case (Suc m)
  then have lt: "i < retryCount" and m: "m = nat (retryCount - (i + 1))" by auto
  let ?s1 = "recorded (GetOFPortOpState d p) s"
  let ?s2 = "recorded (Sleep ci) ?s1"
  have up0: "poll_up w d p ci s 0 \<longleftrightarrow> GetOFPortOpState_ret w (history s) (GetOFPortOpState d p) = Inr ''up''"
    by (simp add: poll_up_def poll_rounds_def)
  show ?case
  proof (cases "poll_up w d p ci s 0")
    case True
    then have "waitLinkUp_loop w d p retryCount ci i s = (None, ?s1)"
      using lt up0 by (subst waitLinkUp_loop.simps) (simp add: request_def recorded_def Let_def)
    then show ?thesis using True lt
      by (intro exI[of _ 1]) (simp add: recorded_def poll_rounds_def)
  next
    case False
    have step: "waitLinkUp_loop w d p retryCount ci i s = waitLinkUp_loop w d p retryCount ci (i + 1) ?s2"
      using False up0 lt
      by (subst waitLinkUp_loop.simps) (simp add: request_def recorded_def Let_def)
    from lt have le: "i + 1 \<le> retryCount" by simp
    from Suc.hyps(1)[OF m le, of ?s2] obtain n where n: "1 \<le> n" "int n \<le> retryCount - (i + 1) + 1"
      "history (snd (waitLinkUp_loop w d p retryCount ci (i + 1) ?s2)) =
         history ?s2 @ poll_rounds d p ci (n - 1) @ [GetOFPortOpState d p]"
      "cache (snd (waitLinkUp_loop w d p retryCount ci (i + 1) ?s2)) = cache ?s2"
      "\<forall>k<n - 1. \<not> poll_up w d p ci ?s2 k"
      "if poll_up w d p ci ?s2 (n - 1)
       then fst (waitLinkUp_loop w d p retryCount ci (i + 1) ?s2) = None
       else int n = retryCount - (i + 1) + 1 \<and>
            fst (waitLinkUp_loop w d p retryCount ci (i + 1) ?s2) = Some (OFPortNotUp p)"
      by blast
    have h: "history ?s2 @ poll_rounds d p ci (n - 1) = history s @ poll_rounds d p ci n"
      using n(1) poll_rounds_Suc[of d p ci "n - 1"] by (simp add: recorded_def)
    have ups: "poll_up w d p ci ?s2 k = poll_up w d p ci s (Suc k)" for k
      by (simp add: poll_up_Suc)
    have none: "\<forall>k<n. \<not> poll_up w d p ci s k"
    proof (intro allI impI)
      fix k assume "k < n"
      show "\<not> poll_up w d p ci s k"
      proof (cases k)
        case 0 then show ?thesis using False by simp
      next
        case (Suc j)
        then have "j < n - 1" using \<open>k < n\<close> by simp
        with n(5) ups[of j] Suc show ?thesis by simp
      qed
    qed
    show ?thesis
      unfolding step
      apply (rule exI[of _ "Suc n"])
      using n none h ups[of "n - 1"] by (simp add: recorded_def split: if_splits)
  qed
qed

lemma waitLinkUp_no_retries:
  "retryCount \<le> 0 \<Longrightarrow> waitLinkUp w d p retryCount interval s = (None, s)"
  by (simp add: waitLinkUp_def waitLinkUp_loop.simps)

text \<open>
  C6, as the claim states it, fails for a retry count of 0 (or below): the loop body is
  never entered, so no poll is made and nil is returned, on a port that never reports
  \<^verbatim>\<open>up\<close>.
\<close>

theorem waitLinkUp_zero_retries_counterexample:
  "waitLinkUp world_port_down (''br0'', ''unix:/run/openvswitch/db.sock'') ''veth1'' 0 1000 example_state
     = (None, example_state) \<and>
   history example_state = [] \<and>
   GetOFPortOpState_ret world_port_down (history example_state)
     (GetOFPortOpState (''br0'', ''unix:/run/openvswitch/db.sock'') ''veth1'') = Inr ''down''"
  by (simp add: waitLinkUp_no_retries world_port_down_def example_world_def example_state_def)

text \<open>
  C6, amended.  For a retry count of at least 1 and every interval, \<^verbatim>\<open>waitLinkUp\<close> makes
  \<open>n\<close> polls of the port's operational state, with \<open>n\<close> at least 1 and at most the retry
  count, and sleeps for the same duration (the interval in milliseconds) after every poll
  but the last; no poll before the last reports \<^verbatim>\<open>up\<close>; when the last poll reports
  \<^verbatim>\<open>up\<close> it returns nil, and otherwise all retries are used up and it returns the error.
  It changes nothing else.  For a retry count below 1 it returns nil without a poll.
\<close>

theorem waitLinkUp_bounded_polling:
  "(1 \<le> retryCount \<longrightarrow>
      (\<exists>n. 1 \<le> n \<and> int n \<le> retryCount \<and>
         history (snd (waitLinkUp w d p retryCount interval s)) =
           history s @ poll_rounds d p (word_of_int interval * 1000000) (n - 1) @ [GetOFPortOpState d p] \<and>
         cache (snd (waitLinkUp w d p retryCount interval s)) = cache s \<and>
         (\<forall>k<n - 1. \<not> poll_up w d p (word_of_int interval * 1000000) s k) \<and>
         (if poll_up w d p (word_of_int interval * 1000000) s (n - 1)
          then fst (waitLinkUp w d p retryCount interval s) = None
          else int n = retryCount \<and>
               fst (waitLinkUp w d p retryCount interval s) = Some (OFPortNotUp p)))) \<and>
   (retryCount \<le> 0 \<longrightarrow> waitLinkUp w d p retryCount interval s = (None, s))"
proof -
  have "\<exists>n. 1 \<le> n \<and> int n \<le> retryCount \<and>
         history (snd (waitLinkUp w d p retryCount interval s)) =
           history s @ poll_rounds d p (word_of_int interval * 1000000) (n - 1) @ [GetOFPortOpState d p] \<and>
         cache (snd (waitLinkUp w d p retryCount interval s)) = cache s \<and>
         (\<forall>k<n - 1. \<not> poll_up w d p (word_of_int interval * 1000000) s k) \<and>
         (if poll_up w d p (word_of_int interval * 1000000) s (n - 1)
          then fst (waitLinkUp w d p retryCount interval s) = None
          else int n = retryCount \<and>
               fst (waitLinkUp w d p retryCount interval s) = Some (OFPortNotUp p))"
    if "1 \<le> retryCount"
    using waitLinkUp_loop_polls[OF that, of w d p "word_of_int interval * 1000000" s]
    unfolding waitLinkUp_def Let_def
    by (elim exE, rule_tac x = n in exI) (simp split: if_splits)
  then show ?thesis using waitLinkUp_no_retries[of retryCount w d p interval s] by blast
qed

lemma waitLinkUp_example:
  "waitLinkUp world_port_up_later (''br0'', ''unix:/run/openvswitch/db.sock'') ''veth1'' 5 1000 example_state =
     (None, \<lparr>history = [GetOFPortOpState (''br0'', ''unix:/run/openvswitch/db.sock'') ''veth1'',
                         Sleep 1000000000,
                         GetOFPortOpState (''br0'', ''unix:/run/openvswitch/db.sock'') ''veth1''],
             cache = Map.empty\<rparr>)"
  by (simp add: waitLinkUp_def waitLinkUp_loop.simps request_def recorded_def Let_def
      world_port_up_later_def example_world_def example_state_def)

theorem waitLinkUp_bounded_polling_witness:
  "(1::int) \<le> 5 \<and>
   (\<exists>n. 1 \<le> n \<and> int n \<le> 5 \<and>
      history (snd (waitLinkUp world_port_up_later (''br0'', ''unix:/run/openvswitch/db.sock'') ''veth1'' 5 1000 example_state)) =
        history example_state @
        poll_rounds (''br0'', ''unix:/run/openvswitch/db.sock'') ''veth1'' (word_of_int 1000 * 1000000) (n - 1) @
        [GetOFPortOpState (''br0'', ''unix:/run/openvswitch/db.sock'') ''veth1'']) \<and>
   waitLinkUp world_port_up_later (''br0'', ''unix:/run/openvswitch/db.sock'') ''veth1'' 5 1000 example_state =
     (None, \<lparr>history = [GetOFPortOpState (''br0'', ''unix:/run/openvswitch/db.sock'') ''veth1'',
                         Sleep 1000000000,
                         GetOFPortOpState (''br0'', ''unix:/run/openvswitch/db.sock'') ''veth1''],
             cache = Map.empty\<rparr>)"
proof -
  have h: "(1::int) \<le> 5" by simp
  from waitLinkUp_bounded_polling[of 5 world_port_up_later "(''br0'', ''unix:/run/openvswitch/db.sock'')"
      "''veth1''" 1000 example_state] h
  have "\<exists>n. 1 \<le> n \<and> int n \<le> 5 \<and>
      history (snd (waitLinkUp world_port_up_later (''br0'', ''unix:/run/openvswitch/db.sock'') ''veth1'' 5 1000 example_state)) =
        history example_state @
        poll_rounds (''br0'', ''unix:/run/openvswitch/db.sock'') ''veth1'' (word_of_int 1000 * 1000000) (n - 1) @
        [GetOFPortOpState (''br0'', ''unix:/run/openvswitch/db.sock'') ''veth1'']"
    by blast
  then show ?thesis using h waitLinkUp_example by simp
qed

section \<open>Calls made by the blocks of the plugin\<close>

lemma steps_refl: "steps P s s"
  by (simp add: steps_def)

lemma steps_trans: "steps P s s' \<Longrightarrow> steps P s' s'' \<Longrightarrow> steps P s s''"
  by (auto simp: steps_def)


lemma steps_recorded: "P c \<Longrightarrow> steps P s (recorded c s)"
  by (simp add: steps_def recorded_def)

lemma steps_request: "P c \<Longrightarrow> steps P s (snd (request f c s))"
  by (simp add: steps_def request_def)

lemma quiet_refl: "quiet s s"
  by (simp add: quiet_def steps_refl)

lemma quiet_trans: "quiet s s' \<Longrightarrow> quiet s' s'' \<Longrightarrow> quiet s s''"
  by (auto simp: quiet_def intro: steps_trans)


lemma quiet_cache: "quiet s s' \<Longrightarrow> cache s' = cache s"
  by (simp add: quiet_def)

lemma quiet_recorded: "CreatePort_vlan c = None \<Longrightarrow> quiet s (recorded c s)"
  by (simp add: quiet_def steps_recorded) (simp add: recorded_def)

lemma quiet_request: "CreatePort_vlan c = None \<Longrightarrow> quiet s (snd (request f c s))"
  by (simp add: quiet_def steps_request) (simp add: request_def)

lemma quiet_perform: "CreatePort_vlan c = None \<Longrightarrow> quiet s (snd (perform w c s))"
  by (simp add: perform_def quiet_request)

lemma quiet_requestD: "request f c s = (r, s') \<Longrightarrow> CreatePort_vlan c = None \<Longrightarrow> quiet s s'"
  using quiet_request[of c s f] by simp

lemma quiet_performD: "perform w c s = (r, s') \<Longrightarrow> CreatePort_vlan c = None \<Longrightarrow> quiet s s'"
  using quiet_perform[of c s w] by simp



lemma quiet_setInterfaceUp: "setInterfaceUp w ns name s = (r, s') \<Longrightarrow> quiet s s'"
  by (auto simp: setInterfaceUp_def quiet_refl CreatePort_vlan_def split: sum.splits
      dest!: quiet_performD)

lemma quiet_assignMacToLink: "assignMacToLink w ns link mac name s = (r, s') \<Longrightarrow> quiet s s'"
  by (auto simp: assignMacToLink_def CreatePort_vlan_def split: prod.splits option.splits
      dest!: quiet_performD)

lemma quiet_setupVeth_toRun: "setupVeth_toRun w ns name mac mtu ifaces s = (r, s') \<Longrightarrow> quiet s s'"
  by (auto simp: setupVeth_toRun_def CreatePort_vlan_def split: prod.splits sum.splits option.splits
      dest!: quiet_requestD quiet_setInterfaceUp intro: quiet_trans)

lemma quiet_NetNS_Do:
  "NetNS_Do w path toRun unchanged s = (r, s') \<Longrightarrow> (\<And>r s'. toRun s = (r, s') \<Longrightarrow> quiet s s') \<Longrightarrow>
   quiet s s'"
  by (auto simp: NetNS_Do_def quiet_refl split: option.splits)

lemma quiet_setupVeth: "setupVeth w ns name mac mtu s = (r, s') \<Longrightarrow> quiet s s'"
  by (auto simp: setupVeth_def Let_def refetchIface_def split: prod.splits option.splits
      elim!: quiet_NetNS_Do dest: quiet_setupVeth_toRun)

lemma list_all_poll_rounds:
  "P (GetOFPortOpState d p) \<Longrightarrow> P (Sleep ci) \<Longrightarrow> list_all P (poll_rounds d p ci k)"
  by (induction k) (simp_all add: poll_rounds_def)

lemma quiet_waitLinkUp: "waitLinkUp w d p retryCount interval s = (r, s') \<Longrightarrow> quiet s s'"
proof (cases "1 \<le> retryCount")
  case True
  assume "waitLinkUp w d p retryCount interval s = (r, s')"
  with waitLinkUp_loop_polls[OF True, of w d p "word_of_int interval * 1000000" s]
  show ?thesis
    by (auto simp: quiet_def steps_def waitLinkUp_def list_all_poll_rounds CreatePort_vlan_def)
next
  case False
  assume "waitLinkUp w d p retryCount interval s = (r, s')"
  with False show ?thesis by (simp add: waitLinkUp_no_retries quiet_refl)
qed

lemma quiet_garp: "quiet s (CmdAdd_garp w ns contVeth ips s)"
proof (induction ips arbitrary: s)
  case Nil
  show ?case by (simp add: quiet_refl)
next
  case (Cons ipc ips)
  have "quiet s (if To4 (Address_IP ipc) \<noteq> None
                 then snd (perform w (GratuitousArpOverIface ns (Address_IP ipc) (Iface_Name contVeth)) s)
                 else s)"
    by (simp add: quiet_refl quiet_perform CreatePort_vlan_def)
  from quiet_trans[OF this Cons] show ?case by simp
qed

lemma quiet_CmdAdd_assign_mac:
  "CmdAdd_assign_mac w args netconf mac newResult s = (r, s') \<Longrightarrow> quiet s s'"
  unfolding CmdAdd_assign_mac_def Let_def
  by (auto simp: quiet_refl split: prod.splits sum.splits option.splits if_splits
      dest!: quiet_assignMacToLink)

lemma quiet_CmdAdd_toRun: "CmdAdd_toRun w args netconf mac newResult s = (r, s') \<Longrightarrow> quiet s s'"
  unfolding CmdAdd_toRun_def
  by (auto simp: CreatePort_vlan_def quiet_refl quiet_garp
      split: prod.splits sum.splits option.splits if_splits
      dest!: quiet_performD quiet_CmdAdd_assign_mac
      intro: quiet_trans quiet_trans[OF _ quiet_garp] quiet_trans[OF quiet_trans[OF _ _] quiet_garp])

lemma quiet_CmdAdd_ipam:
  "CmdAdd_ipam w args netconf mac drv hostIface contIface s = (r, s') \<Longrightarrow> quiet s s'"
  unfolding CmdAdd_ipam_def Let_def
  by (auto simp: CreatePort_vlan_def quiet_refl
      split: prod.splits sum.splits option.splits if_splits
      dest!: quiet_requestD quiet_waitLinkUp
      elim!: quiet_NetNS_Do
      dest: quiet_CmdAdd_toRun
      intro: quiet_trans)







lemma cache_attachIfaceToBridge:
  "attachIfaceToBridge w ns drv hostIfaceName contIfaceName ofportRequest vlanTag trunks portType
     intfType contNetnsPath ovnPortName contPodUid s = (r, s') \<Longrightarrow> cache s' = cache s"
  unfolding attachIfaceToBridge_def
  by (auto simp: perform_def request_def split: prod.splits sum.splits option.splits)


lemma cache_CmdAdd_provision:
  assumes "CmdAdd_provision w args L s = (Inr ifaces, s')"
  shows "map_option Netconf (cache s' (GetCRef w (ContainerID args) (IfName args))) = Some (l_netconf L)"
proof -
  have save: "utils_SaveCache w cRef conf s = (None, s') \<Longrightarrow> cache s' cRef = Some conf" for cRef conf s s'
    by (auto simp: utils_SaveCache_def split: prod.splits option.splits)
  show ?thesis
    using assms unfolding CmdAdd_provision_def
    by (auto split: prod.splits sum.splits option.splits if_splits
        dest!: save quiet_setupVeth quiet_requestD cache_attachIfaceToBridge
        simp: quiet_def CreatePort_vlan_def)
qed




section \<open>Properties of the port kind\<close>




section \<open>Properties of the rollback of an attach\<close>

lemma CmdAdd_armed_exit:
  assumes opened: "CmdAdd_open w args s0 = (Inr L, s1)"
    and attached: "CmdAdd_provision w args L s1 = (Inr (hostIface, contIface), s2)"
    and ipam: "IPAM_Type (l_netconf L) \<noteq> []" "\<not> l_userspaceMode L"
    and exit: "CmdAdd_ipam w args (l_netconf L) (l_mac L) (l_ovsBridgeDriver L) hostIface contIface s2
                 = (Inl (Some e, Some e'), sf)"
  shows "attach_rolled_back w args L s0 sf e"
proof -
  from quiet_CmdAdd_ipam[OF exit] have c: "cache sf = cache s2"
    by (simp add: quiet_def)
  from cache_CmdAdd_provision[OF attached]
  have k: "map_option Netconf (cache s2 (GetCRef w (ContainerID args) (IfName args))) = Some (l_netconf L)" .
  show ?thesis
    unfolding attach_rolled_back_def Let_def CmdAdd_def
    using opened attached ipam exit c k
    by (auto simp: CmdAdd_armed_def CmdAdd_rollback_def getOvsPortForContIface_def removeOvsPort_def
        request_def perform_def recorded_def Let_def split: prod.splits)
qed

text \<open>
  The four failures that assign the variable \<^verbatim>\<open>err\<close> of \<^verbatim>\<open>CmdAdd\<close>.  Once
  \<^verbatim>\<open>attachIfaceToBridge\<close> has returned nil (the switch port is created and the host-side
  link is up), with an IPAM type configured and no userspace driver: when the IPAM
  plugin's \<^verbatim>\<open>ADD\<close> fails, when the wait for the link state fails, when the MAC assignment
  fails, or when the configuration of the container interface fails, the run of
  \<^verbatim>\<open>CmdAdd\<close> is rolled back as \<open>attach_rolled_back\<close> says: the port is looked up by the
  container interface name and the namespace path and deleted when found, the cache
  record saved before stays, and the failure is returned (that of the IPAM plugin's
  \<^verbatim>\<open>ADD\<close> wrapped in \<^verbatim>\<open>failed to set up IPAM plugin\<close>).
\<close>

lemma CmdAdd_later_failure_rolled_back:
  assumes opened: "CmdAdd_open w args s0 = (Inr L, s1)"
    and attached: "CmdAdd_provision w args L s1 = (Inr (hostIface, contIface), s2)"
    and ipam: "IPAM_Type (l_netconf L) \<noteq> []" "\<not> l_userspaceMode L"
  shows
    "(\<forall>e. ExecAdd_ret w (history s2) (ExecAdd (IPAM_Type (l_netconf L)) (StdinData args)) = Inl e \<longrightarrow>
        attach_rolled_back w args L s0
          (recorded (ExecAdd (IPAM_Type (l_netconf L)) (StdinData args)) s2)
          (FailedSetupIPAM (IPAM_Type (l_netconf L)) e)) \<and>
     (\<forall>r newResult.
        ExecAdd_ret w (history s2) (ExecAdd (IPAM_Type (l_netconf L)) (StdinData args)) = Inr r \<and>
        NewResultFromResult w r = Inr newResult \<and> IPs newResult \<noteq> [] \<longrightarrow>
        (\<forall>e sf.
           waitLinkUp w (l_ovsBridgeDriver L) (Name hostIface) (LinkStateCheckRetries (l_netconf L))
             (LinkStateCheckInterval (l_netconf L))
             (recorded (ExecAdd (IPAM_Type (l_netconf L)) (StdinData args)) s2) = (Some e, sf) \<longrightarrow>
           attach_rolled_back w args L s0 sf e) \<and>
        (\<forall>s3.
           waitLinkUp w (l_ovsBridgeDriver L) (Name hostIface) (LinkStateCheckRetries (l_netconf L))
             (LinkStateCheckInterval (l_netconf L))
             (recorded (ExecAdd (IPAM_Type (l_netconf L)) (StdinData args)) s2) = (None, s3) \<and>
           failure w (history s3) (NetNS_Set (Netns args)) = None \<longrightarrow>
           (\<forall>e newResult' sf.
              CmdAdd_assign_mac w args (l_netconf L) (l_mac L)
                (newResult\<lparr>Interfaces := [contIface],
                            IPs := map (\<lambda>ipc. ipc\<lparr>Interface := Some 0\<rparr>) (IPs newResult)\<rparr>) s3
                = ((Some e, newResult'), sf) \<longrightarrow>
              attach_rolled_back w args L s0 sf e) \<and>
           (\<forall>e newResult2 s4.
              CmdAdd_assign_mac w args (l_netconf L) (l_mac L)
                (newResult\<lparr>Interfaces := [contIface],
                            IPs := map (\<lambda>ipc. ipc\<lparr>Interface := Some 0\<rparr>) (IPs newResult)\<rparr>) s3
                = ((None, newResult2), s4) \<and>
              failure w (history s4) (ConfigureIface (Netns args) (IfName args) newResult2) = Some e \<longrightarrow>
              attach_rolled_back w args L s0
                (recorded (ConfigureIface (Netns args) (IfName args) newResult2) s4) e)))"
proof -
  let ?add = "ExecAdd (IPAM_Type (l_netconf L)) (StdinData args)"
  let ?ipam = "CmdAdd_ipam w args (l_netconf L) (l_mac L) (l_ovsBridgeDriver L) hostIface contIface s2"
  note exit = CmdAdd_armed_exit[OF opened attached ipam]
  have 1: "attach_rolled_back w args L s0 (recorded ?add s2) (FailedSetupIPAM (IPAM_Type (l_netconf L)) e)"
    if "ExecAdd_ret w (history s2) ?add = Inl e" for e
  proof (rule exit)
    show "?ipam = (Inl (Some (FailedSetupIPAM (IPAM_Type (l_netconf L)) e), Some e), recorded ?add s2)"
      using that by (simp add: CmdAdd_ipam_def request_def recorded_def)
  qed
  have 2: "attach_rolled_back w args L s0 sf e"
    if "ExecAdd_ret w (history s2) ?add = Inr r" "NewResultFromResult w r = Inr newResult"
      "IPs newResult \<noteq> []"
      "waitLinkUp w (l_ovsBridgeDriver L) (Name hostIface) (LinkStateCheckRetries (l_netconf L))
         (LinkStateCheckInterval (l_netconf L)) (recorded ?add s2) = (Some e, sf)"
    for r newResult e sf
  proof (rule exit)
    show "?ipam = (Inl (Some e, Some e), sf)"
      using that by (simp add: CmdAdd_ipam_def request_def recorded_def Let_def)
  qed
  have 3: "attach_rolled_back w args L s0 sf e"
    if "ExecAdd_ret w (history s2) ?add = Inr r" "NewResultFromResult w r = Inr newResult"
      "IPs newResult \<noteq> []"
      "waitLinkUp w (l_ovsBridgeDriver L) (Name hostIface) (LinkStateCheckRetries (l_netconf L))
         (LinkStateCheckInterval (l_netconf L)) (recorded ?add s2) = (None, s3)"
      "failure w (history s3) (NetNS_Set (Netns args)) = None"
      "CmdAdd_assign_mac w args (l_netconf L) (l_mac L)
         (newResult\<lparr>Interfaces := [contIface],
                     IPs := map (\<lambda>ipc. ipc\<lparr>Interface := Some 0\<rparr>) (IPs newResult)\<rparr>) s3
         = ((Some e, newResult'), sf)"
    for r newResult s3 e newResult' sf
  proof (rule exit)
    show "?ipam = (Inl (Some e, Some e), sf)"
      using that
      by (simp add: CmdAdd_ipam_def request_def recorded_def Let_def NetNS_Do_def CmdAdd_toRun_def)
  qed
  have 4: "attach_rolled_back w args L s0
             (recorded (ConfigureIface (Netns args) (IfName args) newResult2) s4) e"
    if "ExecAdd_ret w (history s2) ?add = Inr r" "NewResultFromResult w r = Inr newResult"
      "IPs newResult \<noteq> []"
      "waitLinkUp w (l_ovsBridgeDriver L) (Name hostIface) (LinkStateCheckRetries (l_netconf L))
         (LinkStateCheckInterval (l_netconf L)) (recorded ?add s2) = (None, s3)"
      "failure w (history s3) (NetNS_Set (Netns args)) = None"
      "CmdAdd_assign_mac w args (l_netconf L) (l_mac L)
         (newResult\<lparr>Interfaces := [contIface],
                     IPs := map (\<lambda>ipc. ipc\<lparr>Interface := Some 0\<rparr>) (IPs newResult)\<rparr>) s3
         = ((None, newResult2), s4)"
      "failure w (history s4) (ConfigureIface (Netns args) (IfName args) newResult2) = Some e"
    for r newResult s3 e newResult2 s4
  proof (rule exit)
    show "?ipam = (Inl (Some e, Some e), recorded (ConfigureIface (Netns args) (IfName args) newResult2) s4)"
      using that
      by (simp add: CmdAdd_ipam_def request_def perform_def recorded_def Let_def NetNS_Do_def
          CmdAdd_toRun_def)
  qed
  show ?thesis
    using 1 2 3 4 by blast
qed

lemma CmdAdd_open_examples:
  "CmdAdd_open world_ipam_fails example_args example_state = (Inr example_locals, example_state)"
  "CmdAdd_open world_port_down example_args example_state = (Inr example_locals, example_state)"
  "CmdAdd_open world_mac_fails example_args example_state = (Inr example_locals, example_state)"
  "CmdAdd_open world_configure_fails example_args example_state = (Inr example_locals, example_state)"
  "CmdAdd_open world_ipam_no_ips example_args example_state = (Inr example_locals, example_state)"
  by (simp_all add: CmdAdd_open_def CmdAdd_vlan_def getEnvArgs_def getBridgeName_def cleanPorts_def
      Let_def world_ipam_fails_def world_port_down_def world_mac_fails_def world_configure_fails_def
      world_ipam_no_ips_def
      example_world_def example_args_def example_netconf_def example_state_def example_locals_def)

lemma CmdAdd_provision_examples:
  "CmdAdd_provision world_ipam_fails example_args example_locals example_state
     = (Inr (example_hostIface, example_contIface), example_attached)"
  "CmdAdd_provision world_port_down example_args example_locals example_state
     = (Inr (example_hostIface, example_contIface), example_attached)"
  "CmdAdd_provision world_mac_fails example_args example_locals example_state
     = (Inr (example_hostIface, example_contIface), example_attached)"
  "CmdAdd_provision world_configure_fails example_args example_locals example_state
     = (Inr (example_hostIface, example_contIface), example_attached)"
  "CmdAdd_provision world_ipam_no_ips example_args example_locals example_state
     = (Inr (example_hostIface, example_contIface), example_attached)"
  by (simp_all add: CmdAdd_provision_def utils_SaveCache_def setupVeth_def setupVeth_toRun_def
      setInterfaceUp_def refetchIface_def getHardwareAddr_def NetNS_Do_def attachIfaceToBridge_def
      request_def perform_def recorded_def hostNetns_def Let_def
      world_ipam_fails_def world_port_down_def world_mac_fails_def world_configure_fails_def
      world_ipam_no_ips_def
      example_world_def example_args_def example_netconf_def example_state_def example_locals_def
      example_cached_def example_attached_def example_hostIface_def example_contIface_def)

lemma example_ipam_enabled:
  "IPAM_Type (l_netconf example_locals) \<noteq> []" "\<not> l_userspaceMode example_locals"
  "IPAM_Type (l_netconf example_locals) = ''host-local''" "StdinData example_args = ''{}''"
  "Netns example_args = ''/run/netns/ns1''" "IfName example_args = ''net1''"
  "l_ovsBridgeDriver example_locals = (''br0'', ''unix:/run/openvswitch/db.sock'')"
  "l_mac example_locals = []" "l_netconf example_locals = example_netconf"
  "LinkStateCheckRetries example_netconf = 5" "LinkStateCheckInterval example_netconf = 1000"
  "Name example_hostIface = ''veth1''" "IPAM_Type example_netconf = ''host-local''"
  "CNIVersion example_netconf = ''1.0.0''" "ContainerID example_args = ''c1''"
  by (simp_all add: example_locals_def example_netconf_def example_args_def example_hostIface_def)

lemma example_ipam_worlds:
  "ExecAdd_ret world_ipam_fails h c = Inl (External ''no addresses left'')"
  "failure world_ipam_fails h c = None"
  "GetOvsPortForContIface_ret world_ipam_fails h c = (''veth1'', True, None)"
  "ExecAdd_ret world_ipam_no_ips h c = Inr \<lparr>Interfaces = [], IPs = []\<rparr>"
  "NewResultFromResult world_ipam_no_ips r = Inr r"
  by (simp_all add: world_ipam_fails_def world_ipam_no_ips_def example_world_def)

lemma recorded_example_after: "recorded c (example_after calls) = example_after (calls @ [c])"
  by (simp add: recorded_def example_after_def)

lemma recorded_example_attached: "recorded c example_attached = example_after [c]"
  by (simp add: recorded_def example_after_def)

lemma waitLinkUp_examples:
  "waitLinkUp world_port_down (''br0'', ''unix:/run/openvswitch/db.sock'') ''veth1'' 5 1000
     (example_after [example_add]) =
     (Some (OFPortNotUp ''veth1''),
      example_after [example_add, example_poll, Sleep 1000000000, example_poll, Sleep 1000000000,
        example_poll, Sleep 1000000000, example_poll, Sleep 1000000000, example_poll])"
  "waitLinkUp world_mac_fails (''br0'', ''unix:/run/openvswitch/db.sock'') ''veth1'' 5 1000
     (example_after [example_add]) = (None, example_after [example_add, example_poll])"
  "waitLinkUp world_configure_fails (''br0'', ''unix:/run/openvswitch/db.sock'') ''veth1'' 5 1000
     (example_after [example_add]) = (None, example_after [example_add, example_poll])"
  by (simp_all add: waitLinkUp_def waitLinkUp_loop.simps request_def recorded_def Let_def
      world_port_down_def world_mac_fails_def world_configure_fails_def example_world_def
      example_after_def example_poll_def)

lemma CmdAdd_assign_mac_examples:
  "CmdAdd_assign_mac world_mac_fails example_args example_netconf [] example_newResult1
     (example_after [example_add, example_poll]) =
     ((Some (FailedSetMAC ''net1'' ''mac'' (External ''operation not permitted'')), example_newResult1),
      example_after [example_add, example_poll, example_set_mac])"
  "CmdAdd_assign_mac world_configure_fails example_args example_netconf [] example_newResult1
     (example_after [example_add, example_poll]) =
     ((None, example_newResult1), example_after [example_add, example_poll, example_set_mac])"
  by (simp_all add: CmdAdd_assign_mac_def assignMacToLink_def IPAddrToHWAddr_def To4_def
      request_def perform_def recorded_def Let_def
      world_mac_fails_def world_configure_fails_def example_world_def example_after_def
      example_args_def example_netconf_def example_newResult1_def example_contIface_def
      example_set_mac_def)

lemma example_oracles:
  "ExecAdd_ret world_ipam_fails (history example_attached) example_add = Inl (External ''no addresses left'')"
  "ExecAdd_ret world_port_down (history example_attached) example_add = Inr example_newResult"
  "ExecAdd_ret world_mac_fails (history example_attached) example_add = Inr example_newResult"
  "ExecAdd_ret world_configure_fails (history example_attached) example_add = Inr example_newResult"
  "NewResultFromResult world_port_down example_newResult = Inr example_newResult"
  "NewResultFromResult world_mac_fails example_newResult = Inr example_newResult"
  "NewResultFromResult world_configure_fails example_newResult = Inr example_newResult"
  "IPs example_newResult \<noteq> []"
  "example_newResult\<lparr>Interfaces := [example_contIface],
                     IPs := map (\<lambda>ipc. ipc\<lparr>Interface := Some 0\<rparr>) (IPs example_newResult)\<rparr>
     = example_newResult1"
  "failure world_mac_fails h (NetNS_Set p) = None"
  "failure world_configure_fails h (NetNS_Set p) = None"
  "failure world_configure_fails h example_configure = Some (External ''failed to add IP addr'')"
  by (simp_all add: world_ipam_fails_def world_port_down_def world_mac_fails_def
      world_configure_fails_def example_world_def example_newResult_def example_newResult1_def
      example_configure_def)

lemma CmdAdd_later_failure_rolled_back_examples:
  "CmdAdd_open world_ipam_fails example_args example_state = (Inr example_locals, example_state) \<and>
   CmdAdd_provision world_ipam_fails example_args example_locals example_state
     = (Inr (example_hostIface, example_contIface), example_attached) \<and>
   IPAM_Type (l_netconf example_locals) \<noteq> [] \<and> \<not> l_userspaceMode example_locals \<and>
   ExecAdd_ret world_ipam_fails (history example_attached) example_add = Inl (External ''no addresses left'') \<and>
   attach_rolled_back world_ipam_fails example_args example_locals example_state
     (example_after [example_add]) (FailedSetupIPAM ''host-local'' (External ''no addresses left'')) \<and>
   attach_rolled_back world_port_down example_args example_locals example_state
     (example_after [example_add, example_poll, Sleep 1000000000, example_poll, Sleep 1000000000,
        example_poll, Sleep 1000000000, example_poll, Sleep 1000000000, example_poll])
     (OFPortNotUp ''veth1'') \<and>
   attach_rolled_back world_mac_fails example_args example_locals example_state
     (example_after [example_add, example_poll, example_set_mac])
     (FailedSetMAC ''net1'' ''mac'' (External ''operation not permitted'')) \<and>
   attach_rolled_back world_configure_fails example_args example_locals example_state
     (example_after [example_add, example_poll, example_set_mac, example_configure])
     (External ''failed to add IP addr'') \<and>
   CmdAdd world_ipam_fails example_args example_state =
     (Some (FailedSetupIPAM ''host-local'' (External ''no addresses left'')),
      example_after [example_add, ExecDel ''host-local'' ''{}'',
        GetOvsPortForContIface (''br0'', ''unix:/run/openvswitch/db.sock'') ''net1'' ''/run/netns/ns1'',
        DeletePort (''br0'', ''unix:/run/openvswitch/db.sock'') ''veth1'',
        NetNS_Close ''/run/netns/ns1'']) \<and>
   cache (example_after [example_add]) ''c1-net1'' = Some example_cached"
proof -
  note e = example_ipam_enabled
  note T1 = CmdAdd_later_failure_rolled_back[OF CmdAdd_open_examples(1) CmdAdd_provision_examples(1) e(1) e(2)]
  note T2 = CmdAdd_later_failure_rolled_back[OF CmdAdd_open_examples(2) CmdAdd_provision_examples(2) e(1) e(2)]
  note T3 = CmdAdd_later_failure_rolled_back[OF CmdAdd_open_examples(3) CmdAdd_provision_examples(3) e(1) e(2)]
  note T4 = CmdAdd_later_failure_rolled_back[OF CmdAdd_open_examples(4) CmdAdd_provision_examples(4) e(1) e(2)]
  have 1: "attach_rolled_back world_ipam_fails example_args example_locals example_state
     (example_after [example_add]) (FailedSetupIPAM ''host-local'' (External ''no addresses left''))"
    using T1 example_oracles(1)
    by (simp add: e example_add_def[symmetric] recorded_example_attached)
  have 2: "attach_rolled_back world_port_down example_args example_locals example_state
     (example_after [example_add, example_poll, Sleep 1000000000, example_poll, Sleep 1000000000,
        example_poll, Sleep 1000000000, example_poll, Sleep 1000000000, example_poll])
     (OFPortNotUp ''veth1'')"
    using T2 example_oracles waitLinkUp_examples(1)
    by (simp add: e example_add_def[symmetric] recorded_example_attached)
  have 3: "attach_rolled_back world_mac_fails example_args example_locals example_state
     (example_after [example_add, example_poll, example_set_mac])
     (FailedSetMAC ''net1'' ''mac'' (External ''operation not permitted''))"
    using T3 example_oracles waitLinkUp_examples(2) CmdAdd_assign_mac_examples(1)
    by (simp add: e example_add_def[symmetric] recorded_example_attached)
  have 4: "attach_rolled_back world_configure_fails example_args example_locals example_state
     (example_after [example_add, example_poll, example_set_mac, example_configure])
     (External ''failed to add IP addr'')"
    using T4 example_oracles waitLinkUp_examples(3) CmdAdd_assign_mac_examples(2)
    by (simp add: e example_add_def[symmetric] example_configure_def[symmetric]
        recorded_example_attached recorded_example_after)
  have 5: "CmdAdd world_ipam_fails example_args example_state =
     (Some (FailedSetupIPAM ''host-local'' (External ''no addresses left'')),
      example_after [example_add, ExecDel ''host-local'' ''{}'',
        GetOvsPortForContIface (''br0'', ''unix:/run/openvswitch/db.sock'') ''net1'' ''/run/netns/ns1'',
        DeletePort (''br0'', ''unix:/run/openvswitch/db.sock'') ''veth1'',
        NetNS_Close ''/run/netns/ns1''])"
    by (simp add: CmdAdd_def CmdAdd_open_examples CmdAdd_provision_examples CmdAdd_armed_def
        CmdAdd_ipam_def CmdAdd_rollback_def getOvsPortForContIface_def removeOvsPort_def
        request_def perform_def recorded_def Let_def e example_after_def example_add_def
        example_ipam_worlds)
  have 6: "cache (example_after [example_add]) ''c1-net1'' = Some example_cached"
    by (simp add: example_after_def example_attached_def)
  show ?thesis
    using CmdAdd_open_examples(1) CmdAdd_provision_examples(1) e(1) e(2) example_oracles(1) 1 2 3 4 5 6
    by simp
qed

text \<open>
  C1.  The claim: once the switch port has been created, for every later step of
  \<^verbatim>\<open>CmdAdd\<close> that fails the port is looked up by the container interface name and the
  namespace path and deleted, the cache record stays, and the failure is returned.
  The deferred rollback tests the variable \<^verbatim>\<open>err\<close>, not the value returned.  When the
  IPAM plugin's \<^verbatim>\<open>ADD\<close> succeeds with a result that holds no address, \<^verbatim>\<open>CmdAdd\<close> fails
  with \<^verbatim>\<open>return errors.New("IPAM plugin returned missing IP config")\<close> while \<^verbatim>\<open>err\<close> is
  nil: the attach returns the failure, and after the \<^verbatim>\<open>ADD\<close> only the namespace is
  closed; there is no \<^verbatim>\<open>DEL\<close> of the IPAM plugin, no lookup of the port and no deletion,
  so the port created stays on the bridge.  The same holds when \<^verbatim>\<open>PrintResult\<close> fails at
  the end of an attach on which every other step succeeded.
\<close>

theorem CmdAdd_rollback_skipped:
  "CmdAdd world_ipam_no_ips example_args example_state =
     (Some IPAMMissingIPConfig,
      \<lparr>history =
         [SaveCache ''c1-net1'' example_cached,
          SetupVeth ''/run/netns/ns1'' ''net1'' 1500 [],
          LinkSetUp ''/run/netns/ns1'' ''net1'',
          CreatePort (''br0'', ''unix:/run/openvswitch/db.sock'') ''veth1'' ''/run/netns/ns1'' ''net1'' []
            0 0 [] ''trunk'' [] [],
          LinkSetUp [] ''veth1'',
          ExecAdd ''host-local'' ''{}'',
          NetNS_Close ''/run/netns/ns1''],
       cache = [''c1-net1'' \<mapsto> example_cached]\<rparr>) \<and>
   CmdAdd world_print_fails example_args example_state =
     (Some (External ''write /dev/stdout: broken pipe''),
      \<lparr>history =
         [SaveCache ''c1-net1'' example_cached,
          SetupVeth ''/run/netns/ns1'' ''net1'' 1500 [],
          LinkSetUp ''/run/netns/ns1'' ''net1'',
          CreatePort (''br0'', ''unix:/run/openvswitch/db.sock'') ''veth1'' ''/run/netns/ns1'' ''net1'' []
            0 0 [] ''trunk'' [] [],
          LinkSetUp [] ''veth1'',
          ExecAdd ''host-local'' ''{}'',
          GetOFPortOpState (''br0'', ''unix:/run/openvswitch/db.sock'') ''veth1'',
          LinkSetHardwareAddr ''/run/netns/ns1'' ''net1'' [10, 88, 10, 0, 0, 5],
          ConfigureIface ''/run/netns/ns1'' ''net1''
            \<lparr>Interfaces = [\<lparr>Name = ''net1'', Mac = ''mac'', Sandbox = ''/run/netns/ns1''\<rparr>],
             IPs = [\<lparr>Interface = Some 0, Address_IP = [10, 0, 0, 5]\<rparr>]\<rparr>,
          GratuitousArpOverIface ''/run/netns/ns1'' [10, 0, 0, 5] ''net1'',
          PrintResult
            \<lparr>Interfaces = [\<lparr>Name = ''veth1'', Mac = ''mac'', Sandbox = []\<rparr>,
                           \<lparr>Name = ''net1'', Mac = ''mac'', Sandbox = ''/run/netns/ns1''\<rparr>],
             IPs = [\<lparr>Interface = Some 1, Address_IP = [10, 0, 0, 5]\<rparr>]\<rparr> ''1.0.0'',
          NetNS_Close ''/run/netns/ns1''],
       cache = [''c1-net1'' \<mapsto> example_cached]\<rparr>)"
  by (simp add: CmdAdd_def CmdAdd_open_def CmdAdd_provision_def CmdAdd_armed_def CmdAdd_ipam_def
      CmdAdd_toRun_def CmdAdd_assign_mac_def CmdAdd_fix_index_def CmdAdd_vlan_def getEnvArgs_def
      getBridgeName_def cleanPorts_def utils_SaveCache_def setupVeth_def setupVeth_toRun_def
      setInterfaceUp_def refetchIface_def getHardwareAddr_def NetNS_Do_def attachIfaceToBridge_def
      waitLinkUp_def waitLinkUp_loop.simps assignMacToLink_def IPAddrToHWAddr_def To4_def
      request_def perform_def recorded_def hostNetns_def Let_def
      world_ipam_no_ips_def world_print_fails_def
      example_world_def example_args_def example_netconf_def example_state_def example_cached_def)

section \<open>Properties of the detach\<close>

text \<open>
  When the cache store holds no record for the key of the container identifier and the
  interface name, \<^verbatim>\<open>CmdDel\<close> returns nil and makes no call at all: the state is
  unchanged.
\<close>

lemma CmdDel_without_cache_record:
  "cache s (GetCRef w (ContainerID args) (IfName args)) = None \<Longrightarrow> CmdDel w args s = (None, s)"
  by (simp add: CmdDel_def config_LoadConfFromCache_def)

lemma CmdDel_without_cache_record_example:
  "CmdDel example_world example_args example_state = (None, example_state)"
  by (rule CmdDel_without_cache_record) (simp add: example_state_def)

lemma CmdDel_example:
  "CmdDel example_world example_args example_cached_state =
     (None,
      \<lparr>history =
         [ExecDel ''host-local'' ''{}'',
          GetOvsPortForContIface (''br0'', ''unix:/run/openvswitch/db.sock'') ''net1'' ''/run/netns/ns1'',
          DeletePort (''br0'', ''unix:/run/openvswitch/db.sock'') ''veth1'',
          DelLinkByName ''/run/netns/ns1'' ''net1'',
          NetNS_Close ''/run/netns/ns1'',
          CleanCache ''c1-net1''],
       cache = [''c1-net1'' \<mapsto> example_cached](''c1-net1'' := None)\<rparr>)"
  by (simp add: CmdDel_def CmdDel_body_def CmdDel_with_netns_def CmdDel_finish_def
      config_LoadConfFromCache_def utils_CleanCache_def getEnvArgs_def getBridgeName_def
      getOvsPortForContIface_def removeOvsPort_def WithNetNSPath_def cleanPorts_def
      request_def perform_def recorded_def Let_def
      example_world_def example_args_def example_cached_state_def example_cached_def
      example_netconf_def)

text \<open>
  When every step of a detach that found a record succeeds, the record is deleted, and
  a second \<^verbatim>\<open>CmdDel\<close> for the same key, started where the first ended, returns nil and
  makes no call.
\<close>

lemma CmdDel_twice_example:
  "CmdDel example_world example_args (snd (CmdDel example_world example_args example_cached_state))
     = (None, snd (CmdDel example_world example_args example_cached_state))"
  by (rule CmdDel_without_cache_record) (simp add: CmdDel_example)

text \<open>
  C3.  The claim: without a cache record \<^verbatim>\<open>CmdDel\<close> returns nil and tears nothing down, so
  that of two detaches in a row for the same key both succeed and the second performs no
  externally visible action.  The first half holds.  The second half rests on the first
  detach deleting the record, which the deferred function of \<^verbatim>\<open>CmdDel\<close> decides on the
  variable \<^verbatim>\<open>err\<close>, not on the value returned.  With a record kept and the container's
  namespace gone, the first detach deletes the IPAM allocation, the port and the host-side
  link and returns nil, while \<^verbatim>\<open>err\<close> holds the error of \<^verbatim>\<open>ns.WithNetNSPath\<close>: the record
  stays.  The second detach returns nil too, finds the record and makes the same four
  calls again.
\<close>

theorem CmdDel_twice_repeats_teardown:
  "cache example_cached_state ''c1-net1'' = Some example_cached \<and>
   fst (CmdDel world_netns_gone example_args example_cached_state) = None \<and>
   history (snd (CmdDel world_netns_gone example_args example_cached_state)) =
     [ExecDel ''host-local'' ''{}'',
      GetOvsPortForContIface (''br0'', ''unix:/run/openvswitch/db.sock'') ''net1'' ''/run/netns/ns1'',
      DeletePort (''br0'', ''unix:/run/openvswitch/db.sock'') ''veth1'',
      DelLinkByName [] ''veth1''] \<and>
   cache (snd (CmdDel world_netns_gone example_args example_cached_state)) ''c1-net1''
     = Some example_cached \<and>
   fst (CmdDel world_netns_gone example_args
          (snd (CmdDel world_netns_gone example_args example_cached_state))) = None \<and>
   history (snd (CmdDel world_netns_gone example_args
                   (snd (CmdDel world_netns_gone example_args example_cached_state)))) =
     [ExecDel ''host-local'' ''{}'',
      GetOvsPortForContIface (''br0'', ''unix:/run/openvswitch/db.sock'') ''net1'' ''/run/netns/ns1'',
      DeletePort (''br0'', ''unix:/run/openvswitch/db.sock'') ''veth1'',
      DelLinkByName [] ''veth1'',
      ExecDel ''host-local'' ''{}'',
      GetOvsPortForContIface (''br0'', ''unix:/run/openvswitch/db.sock'') ''net1'' ''/run/netns/ns1'',
      DeletePort (''br0'', ''unix:/run/openvswitch/db.sock'') ''veth1'',
      DelLinkByName [] ''veth1'']"
  by (simp add: CmdDel_def CmdDel_body_def CmdDel_with_netns_def CmdDel_finish_def
      config_LoadConfFromCache_def utils_CleanCache_def getEnvArgs_def getBridgeName_def
      getOvsPortForContIface_def removeOvsPort_def WithNetNSPath_def cleanPorts_def
      request_def perform_def recorded_def hostNetns_def Let_def
      world_netns_gone_def
      example_world_def example_args_def example_cached_state_def example_cached_def
      example_netconf_def)

text \<open>
  C2.  The claim: the cache record is deleted if and only if the detach returns no
  error.  The deferred function of \<^verbatim>\<open>CmdDel\<close> tests the variable \<^verbatim>\<open>err\<close>, not the value
  returned.  When the port is found and the switch database fails to delete it, the
  error is returned from an \<^verbatim>\<open>if err := ...\<close> statement whose \<^verbatim>\<open>err\<close> shadows the
  variable: the detach fails and the record is deleted.  When the namespace is gone,
  \<^verbatim>\<open>CmdDel\<close> returns nil while the variable holds the error of \<^verbatim>\<open>ns.WithNetNSPath\<close>:
  the detach succeeds and the record stays.
\<close>

theorem CmdDel_cache_cleanup_diverges:
  "cache example_cached_state ''c1-net1'' = Some example_cached \<and>
   fst (CmdDel world_delete_fails example_args example_cached_state)
     = Some (External ''ovsdb transaction failed'') \<and>
   history (snd (CmdDel world_delete_fails example_args example_cached_state)) =
     [ExecDel ''host-local'' ''{}'',
      GetOvsPortForContIface (''br0'', ''unix:/run/openvswitch/db.sock'') ''net1'' ''/run/netns/ns1'',
      DeletePort (''br0'', ''unix:/run/openvswitch/db.sock'') ''veth1'',
      CleanCache ''c1-net1''] \<and>
   cache (snd (CmdDel world_delete_fails example_args example_cached_state)) ''c1-net1'' = None \<and>
   fst (CmdDel world_netns_gone example_args example_cached_state) = None \<and>
   history (snd (CmdDel world_netns_gone example_args example_cached_state)) =
     [ExecDel ''host-local'' ''{}'',
      GetOvsPortForContIface (''br0'', ''unix:/run/openvswitch/db.sock'') ''net1'' ''/run/netns/ns1'',
      DeletePort (''br0'', ''unix:/run/openvswitch/db.sock'') ''veth1'',
      DelLinkByName [] ''veth1''] \<and>
   cache (snd (CmdDel world_netns_gone example_args example_cached_state)) ''c1-net1''
     = Some example_cached"
  by (simp add: CmdDel_def CmdDel_body_def CmdDel_with_netns_def CmdDel_finish_def
      config_LoadConfFromCache_def utils_CleanCache_def getEnvArgs_def getBridgeName_def
      getOvsPortForContIface_def removeOvsPort_def WithNetNSPath_def cleanPorts_def
      request_def perform_def recorded_def hostNetns_def Let_def
      world_delete_fails_def world_netns_gone_def
      example_world_def example_args_def example_cached_state_def example_cached_def
      example_netconf_def)

end
